theory Spec2Isabelle
  imports Complex_Main "HOL-Library.Word"
begin

section \<open>The asset importer of the studio: data model\<close>

text \<open>
  The development embeds \<^verbatim>\<open>src/studio/import_asset_dialog.cpp\<close>: the mesh, skeleton,
  animation and material writers of the import dialog.

  Conventions of the embedding.
  \<^item> A \<^verbatim>\<open>float\<close> or \<^verbatim>\<open>double\<close> of the scene is a rational number: the finite values
    of the format. The products that the geometry block converts to bytes and
    shorts are \<^verbatim>\<open>float\<close> products, rounded to the nearest \<^verbatim>\<open>float\<close> (\<open>float_mul\<close>);
    the arithmetic of the samplers is exact. Values that are written to a file are
    wrapped in \<open>float32\<close>, which also has the non-finite values of the format.
  \<^item> \<^verbatim>\<open>unsigned int\<close> and \<^verbatim>\<open>int32_t\<close> values that are written or summed are
    \<open>32 word\<close>; their arithmetic wraps.
  \<^item> A C array with its element count (\<^verbatim>\<open>mPositionKeys\<close>/\<^verbatim>\<open>mNumPositionKeys\<close>, ...)
    is a list; the count is its length. A read or write outside the array is the
    error \<open>ArrayOutOfBounds\<close>; an index outside a \<^verbatim>\<open>QVector\<close> is the error
    \<open>VectorIndexOutOfRange\<close> (the assertion of \<^verbatim>\<open>QVector::operator[]\<close>).
  \<^item> A file is the list of the values written to it, in order.
\<close>

datatype error =
    ArrayOutOfBounds
  | VectorIndexOutOfRange
  | VectorNegativeSize
  | FloatDivideByZero
  | FloatToIntOutOfRange
  | SignedIntegerOverflow

definition ebind :: "error + 'a \<Rightarrow> ('a \<Rightarrow> error + 'b) \<Rightarrow> error + 'b" where
  "ebind m f = (case m of Inl e \<Rightarrow> Inl e | Inr v \<Rightarrow> f v)"

text \<open>Reading element \<open>i\<close> of a C array of \<open>length xs\<close> elements.\<close>

definition array_at :: "'a list \<Rightarrow> nat \<Rightarrow> error + 'a" where
  "array_at xs i = (if i < length xs then Inr (xs ! i) else Inl ArrayOutOfBounds)"

datatype vec3 = Vec3 (vx: rat) (vy: rat) (vz: rat)

datatype quat = Quat (qx: rat) (qy: rat) (qz: rat) (qw: rat)

text \<open>\<^verbatim>\<open>aiVector3D::operator*=(float)\<close> and \<^verbatim>\<open>operator+=\<close>.\<close>

definition vec3_scale :: "vec3 \<Rightarrow> rat \<Rightarrow> vec3" where
  "vec3_scale v f = Vec3 (vx v * f) (vy v * f) (vz v * f)"

definition vec3_add :: "vec3 \<Rightarrow> vec3 \<Rightarrow> vec3" where
  "vec3_add a b = Vec3 (vx a + vx b) (vy a + vy b) (vz a + vz b)"

subsection \<open>Values written to a file\<close>

text \<open>
  A \<^verbatim>\<open>float\<close> as it stands in a file. The writers below only produce finite
  values; the other constructors are the remaining values of the format.
\<close>

datatype float32 = Finite rat | PlusInfinity | MinusInfinity | NaN

text \<open>
  One \<^verbatim>\<open>file.write\<close>: a 32-bit signed or unsigned integer, a float, a run of bytes
  (a name), a byte, a 16-bit integer, or \<open>n\<close> bytes of an object that was never
  assigned.
\<close>

datatype item =
    I32 "32 word"
  | U32 "32 word"
  | F32 float32
  | Bytes string
  | U8 "8 word"
  | I16 "16 word"
  | Unassigned nat

text \<open>\<^verbatim>\<open>FLT_MAX\<close> of \<^verbatim>\<open>float.h\<close>: the largest finite \<^verbatim>\<open>float\<close>.\<close>

definition FLT_MAX :: rat where
  "FLT_MAX = (2 ^ 24 - 1) * 2 ^ 104"

subsection \<open>Arithmetic in single precision\<close>

text \<open>
  The number of binary digits of a positive integer.
\<close>

function bit_length :: "int \<Rightarrow> nat" where
  "bit_length n = (if n \<le> 0 then 0 else Suc (bit_length (n div 2)))"
  by pat_completeness auto

termination
  by (relation "measure nat") auto

declare bit_length.simps [simp del]

definition pow2 :: "int \<Rightarrow> rat" where
  "pow2 e = (if 0 \<le> e then 2 ^ nat e else 1 / 2 ^ nat (- e))"

text \<open>The exponent of a positive number \<open>a\<close>: the \<open>e\<close> with \<open>2^e \<le> a < 2^(e+1)\<close>.\<close>

definition float_exponent :: "rat \<Rightarrow> int" where
  "float_exponent a =
     (if 1 \<le> a then int (bit_length \<lfloor>a\<rfloor>) - 1
      else - int (bit_length (\<lceil>1 / a\<rceil> - 1)))"

text \<open>Rounding to the nearest integer, a tie to the even one.\<close>

definition round_half_even :: "rat \<Rightarrow> int" where
  "round_half_even r =
     (if r - of_int \<lfloor>r\<rfloor> < 1 / 2 then \<lfloor>r\<rfloor>
      else if 1 / 2 < r - of_int \<lfloor>r\<rfloor> then \<lfloor>r\<rfloor> + 1
      else if even \<lfloor>r\<rfloor> then \<lfloor>r\<rfloor> else \<lfloor>r\<rfloor> + 1)"

text \<open>
  The \<^verbatim>\<open>float\<close> nearest to a number, in the rounding mode of the language (to
  nearest, a tie to the even significand): 24 binary digits from the exponent of the
  number down, and from the exponent \<open>-126\<close> down for the numbers below \<open>2^-126\<close>.
  A result above \<^verbatim>\<open>FLT_MAX\<close> stands for an infinity; no conversion below accepts it.
\<close>

definition float32_round :: "rat \<Rightarrow> rat" where
  "float32_round r =
     (if r = 0 then 0
      else of_int (round_half_even (r / pow2 (max (float_exponent \<bar>r\<bar>) (- 126) - 23)))
           * pow2 (max (float_exponent \<bar>r\<bar>) (- 126) - 23))"

text \<open>
  The product of two \<^verbatim>\<open>float\<close>s, and of a \<^verbatim>\<open>float\<close> and an \<^verbatim>\<open>int\<close> that is
  converted to \<^verbatim>\<open>float\<close> without loss: the exact product, rounded. The product is
  taken in single precision; a wider format for intermediate results is not
  modelled.
\<close>

definition float_mul :: "rat \<Rightarrow> rat \<Rightarrow> rat" where
  "float_mul a b = float32_round (a * b)"

text \<open>
  Conversion of a \<^verbatim>\<open>float\<close> to a signed integer type truncates towards zero; it is
  undefined when the truncated value is outside the type.
\<close>

definition float_trunc :: "rat \<Rightarrow> int" where
  "float_trunc r = (if 0 \<le> r then \<lfloor>r\<rfloor> else \<lceil>r\<rceil>)"

definition to_int8 :: "rat \<Rightarrow> error + 8 word" where
  "to_int8 r =
     (if - 128 \<le> float_trunc r \<and> float_trunc r \<le> 127 then Inr (word_of_int (float_trunc r))
      else Inl FloatToIntOutOfRange)"

definition to_short :: "rat \<Rightarrow> error + 16 word" where
  "to_short r =
     (if - 32768 \<le> float_trunc r \<and> float_trunc r \<le> 32767 then Inr (word_of_int (float_trunc r))
      else Inl FloatToIntOutOfRange)"

definition to_int32 :: "rat \<Rightarrow> error + int" where
  "to_int32 r =
     (if - 2147483648 \<le> float_trunc r \<and> float_trunc r \<le> 2147483647 then Inr (float_trunc r)
      else Inl FloatToIntOutOfRange)"

subsection \<open>The scene of the importer\<close>

text \<open>
  \<^verbatim>\<open>aiNode\<close>: the name, the local transformation and the children; \<open>'m\<close> is
  \<^verbatim>\<open>aiMatrix4x4\<close>. The parent pointer \<^verbatim>\<open>mParent\<close> is the position in the tree: the
  traversals below carry the parent along.
\<close>

datatype 'm aiNode = Node (mName: string) (mTransformation: 'm) (mChildren: "'m aiNode list")

text \<open>
  The operations of \<^verbatim>\<open>aiMatrix4x4\<close> that the skeleton writer uses: the default
  constructor (the identity), the product and \<^verbatim>\<open>DecomposeNoScaling\<close>.
\<close>

record 'm matrix_ops =
  mat_identity :: 'm
  mat_mult :: "'m \<Rightarrow> 'm \<Rightarrow> 'm"
  DecomposeNoScaling :: "'m \<Rightarrow> quat \<times> vec3"

datatype aiVertexWeight = VertexWeight (mVertexId: "32 word") (mWeight: rat)

record aiBone =
  mName_bone :: string
  mWeights :: "aiVertexWeight list"

text \<open>
  \<^verbatim>\<open>aiMesh\<close>. \<^verbatim>\<open>mNumVertices\<close> is the length of \<open>mVertices\<close>; a null
  \<^verbatim>\<open>mNormals\<close>, \<^verbatim>\<open>mTangents\<close> or \<^verbatim>\<open>mTextureCoords[0]\<close> is the empty list. A face
  is its index array \<^verbatim>\<open>mIndices\<close>.
\<close>

record aiMesh =
  mVertices :: "vec3 list"
  mNormals :: "vec3 list"
  mTangents :: "vec3 list"
  mTextureCoords0 :: "vec3 list"
  mFaces :: "32 word list list"
  mBones :: "aiBone list"
  mMaterialIndex :: nat

definition mNumVertices :: "aiMesh \<Rightarrow> 32 word" where
  "mNumVertices mesh = of_nat (length (mVertices mesh))"

definition mNumFaces :: "aiMesh \<Rightarrow> 32 word" where
  "mNumFaces mesh = of_nat (length (mFaces mesh))"

text \<open>
  \<^verbatim>\<open>aiMaterial\<close>: the value of \<^verbatim>\<open>AI_MATKEY_NAME\<close> and the paths of the diffuse
  textures.
\<close>

record aiMaterial =
  AI_MATKEY_NAME :: string
  aiTextureType_DIFFUSE :: "string list"

subsection \<open>Animation channels\<close>

datatype aiVectorKey = VectorKey (mTime: rat) (mValue: vec3)

datatype aiQuatKey = QuatKey (mTime_q: rat) (mValue_q: quat)

record aiNodeAnim =
  mNodeName :: string
  mPositionKeys :: "aiVectorKey list"
  mRotationKeys :: "aiQuatKey list"


record aiAnimation =
  mName_anim :: string
  mDuration :: rat
  mTicksPerSecond :: rat
  mChannels :: "aiNodeAnim list"

record 'm aiScene =
  mRootNode :: "'m aiNode"
  mMeshes :: "aiMesh list"
  mMaterials :: "aiMaterial list"
  mAnimations :: "aiAnimation list"

section \<open>The submesh table\<close>

definition RIGID_VERTEX_SIZE :: int where
  "RIGID_VERTEX_SIZE = 24"

definition SKINNED_VERTEX_SIZE :: int where
  "SKINNED_VERTEX_SIZE = 56"

datatype VertexAttributeDef =
    POSITION | FLOAT1 | FLOAT2 | FLOAT3 | FLOAT4
  | INT1 | INT2 | INT3 | INT4
  | SHORT2 | SHORT4 | BYTE4 | NONE

text \<open>The value of an enumerator, as \<^verbatim>\<open>(uint32_t)attribute_type\<close> gives it.\<close>

fun attribute_code :: "VertexAttributeDef \<Rightarrow> 32 word" where
  "attribute_code POSITION = 0"
| "attribute_code FLOAT1 = 1"
| "attribute_code FLOAT2 = 2"
| "attribute_code FLOAT3 = 3"
| "attribute_code FLOAT4 = 4"
| "attribute_code INT1 = 5"
| "attribute_code INT2 = 6"
| "attribute_code INT3 = 7"
| "attribute_code INT4 = 8"
| "attribute_code SHORT2 = 9"
| "attribute_code SHORT4 = 10"
| "attribute_code BYTE4 = 11"
| "attribute_code NONE = 12"

definition writeAttribute :: "string \<Rightarrow> VertexAttributeDef \<Rightarrow> item list" where
  "writeAttribute attribute_name attribute_type =
     [U32 (of_nat (length attribute_name)), Bytes attribute_name, U32 (attribute_code attribute_type)]"

definition getVertexSize :: "('m, 's) aiScene_scheme \<Rightarrow> int" where
  "getVertexSize scene =
     (if mChildren (mRootNode scene) \<noteq> [] then SKINNED_VERTEX_SIZE else RIGID_VERTEX_SIZE)"

text \<open>
  One pass of the loop of \<^verbatim>\<open>writeMeshes\<close> writes the descriptor of one mesh: the
  fields of \<open>submesh\<close>, in the order of the record, followed by the attributes.
\<close>

record submesh =
  material_name_length :: "32 word"
  material_name :: string
  attribute_array_offset :: "32 word"
  attribute_array_size :: "32 word"
  indices_offset :: "32 word"
  mesh_tri_count :: "32 word"
  mesh_name_length :: "32 word"
  mesh_name :: string
  attribute_count :: "32 word"
  attributes :: "(string \<times> VertexAttributeDef) list"

definition write_submesh :: "submesh \<Rightarrow> item list" where
  "write_submesh d =
     [I32 (material_name_length d), Bytes (material_name d),
      I32 (attribute_array_offset d), I32 (attribute_array_size d),
      I32 (indices_offset d), I32 (mesh_tri_count d),
      I32 (mesh_name_length d), Bytes (mesh_name d),
      I32 (attribute_count d)]
     @ concat (map (\<lambda>(n, t). writeAttribute n t) (attributes d))"

definition vertex_attributes :: "int \<Rightarrow> (string \<times> VertexAttributeDef) list" where
  "vertex_attributes vertex_size =
     (if vertex_size = SKINNED_VERTEX_SIZE
      then [(''in_weights'', FLOAT4), (''in_indices'', INT4)] else [])
     @ [(''in_position'', POSITION), (''in_normal'', BYTE4),
        (''in_tangents'', BYTE4), (''in_tex_coords'', SHORT2)]"

text \<open>
  The loop of \<^verbatim>\<open>writeMeshes\<close> over the meshes that are left, with the running
  \<^verbatim>\<open>attribute_array_offset\<close> and \<^verbatim>\<open>indices_offset\<close>.
\<close>

fun writeMeshes_loop ::
  "aiMaterial list \<Rightarrow> int \<Rightarrow> aiMesh list \<Rightarrow> 32 word \<Rightarrow> 32 word \<Rightarrow> error + submesh list" where
  "writeMeshes_loop materials vertex_size [] offset_v offset_i = Inr []"
| "writeMeshes_loop materials vertex_size (mesh # rest) offset_v offset_i =
     ebind (array_at materials (mMaterialIndex mesh)) (\<lambda>material.
       let size_v = mNumVertices mesh * word_of_int vertex_size;
           d = \<lparr>material_name_length = of_nat (length (AI_MATKEY_NAME material)),
                material_name = AI_MATKEY_NAME material,
                attribute_array_offset = offset_v,
                attribute_array_size = size_v,
                indices_offset = offset_i,
                mesh_tri_count = mNumFaces mesh,
                mesh_name_length = of_nat (length (AI_MATKEY_NAME material)),
                mesh_name = AI_MATKEY_NAME material,
                attribute_count = (if vertex_size = SKINNED_VERTEX_SIZE then 6 else 4),
                attributes = vertex_attributes vertex_size\<rparr>
       in ebind (writeMeshes_loop materials vertex_size rest
                   (offset_v + size_v) (offset_i + mNumFaces mesh * 3)) (\<lambda>ds.
          Inr (d # ds)))"

definition submeshes :: "('m, 's) aiScene_scheme \<Rightarrow> error + submesh list" where
  "submeshes scene =
     writeMeshes_loop (mMaterials scene) (getVertexSize scene) (mMeshes scene) 0 0"

definition writeMeshes :: "('m, 's) aiScene_scheme \<Rightarrow> error + item list" where
  "writeMeshes scene =
     ebind (submeshes scene) (\<lambda>ds.
       Inr (I32 (of_nat (length (mMeshes scene))) # concat (map write_submesh ds)))"

section \<open>The flattened node names\<close>

text \<open>
  \<^verbatim>\<open>getBoneNames\<close>: the local function \<^verbatim>\<open>S::x\<close> appends the name of the node to
  \<^verbatim>\<open>node_names\<close> and then visits the children in order.
\<close>

fun getBoneNames_x :: "'m aiNode \<Rightarrow> string list \<Rightarrow> string list" where
  "getBoneNames_x (Node nm tr children) node_names =
     foldl (\<lambda>names child. getBoneNames_x child names) (node_names @ [nm]) children"

definition getBoneNames :: "('m, 's) aiScene_scheme \<Rightarrow> string list" where
  "getBoneNames scene = getBoneNames_x (mRootNode scene) []"

text \<open>
  \<^verbatim>\<open>QVector::indexOf\<close>: the position of the first element equal to the value, or
  \<open>-1\<close> when there is none.
\<close>

fun indexOf_from :: "'a list \<Rightarrow> 'a \<Rightarrow> int \<Rightarrow> int" where
  "indexOf_from [] v i = - 1"
| "indexOf_from (x # xs) v i = (if x = v then i else indexOf_from xs v (i + 1))"

definition indexOf :: "'a list \<Rightarrow> 'a \<Rightarrow> int" where
  "indexOf xs v = indexOf_from xs v 0"

text \<open>\<^verbatim>\<open>QVector::operator[]\<close> with its range assertion.\<close>

definition qvector_at :: "'a list \<Rightarrow> int \<Rightarrow> error + 'a" where
  "qvector_at xs i =
     (if 0 \<le> i \<and> i < int (length xs) then Inr (xs ! nat i) else Inl VectorIndexOutOfRange)"

section \<open>Skin influences\<close>

text \<open>
  \<^verbatim>\<open>struct SkinInfo { float weights[4]; int bone_indices[4]; int index; }\<close>; the
  constructor clears all of it.
\<close>

record SkinInfo =
  weights :: "rat list"
  bone_indices :: "int list"
  index :: int

definition SkinInfo_new :: SkinInfo where
  "SkinInfo_new = \<lparr>weights = replicate 4 0, bone_indices = replicate 4 0, index = 0\<rparr>"

text \<open>
  The body of the innermost loop of \<^verbatim>\<open>fillSkinInfo\<close> on one \<^verbatim>\<open>SkinInfo\<close>:
  \<^verbatim>\<open>info.weights[info.index] = w; info.bone_indices[info.index] = bone_index; ++info.index;\<close>
  The source does not compare \<^verbatim>\<open>info.index\<close> with the array length; a write at
  index 4 is outside both arrays.
\<close>

definition add_influence :: "SkinInfo \<Rightarrow> rat \<Rightarrow> int \<Rightarrow> error + SkinInfo" where
  "add_influence info w bone_index =
     (if 0 \<le> index info \<and> index info < 4
      then Inr (info\<lparr>weights := (weights info)[nat (index info) := w],
                     bone_indices := (bone_indices info)[nat (index info) := bone_index],
                     index := index info + 1\<rparr>)
      else Inl ArrayOutOfBounds)"

text \<open>The loop over the weights of one bone (\<open>k\<close>).\<close>

fun fill_weights ::
  "SkinInfo list \<Rightarrow> 32 word \<Rightarrow> int \<Rightarrow> aiVertexWeight list \<Rightarrow> error + SkinInfo list" where
  "fill_weights infos offset bone_index [] = Inr infos"
| "fill_weights infos offset bone_index (w # ws) =
     ebind (qvector_at infos (sint (offset + mVertexId w))) (\<lambda>info.
     ebind (add_influence info (mWeight w) bone_index) (\<lambda>info'.
       fill_weights (infos[nat (sint (offset + mVertexId w)) := info']) offset bone_index ws))"

text \<open>The loop over the bones of one mesh (\<open>j\<close>).\<close>

fun fill_bones ::
  "SkinInfo list \<Rightarrow> string list \<Rightarrow> 32 word \<Rightarrow> aiBone list \<Rightarrow> error + SkinInfo list" where
  "fill_bones infos node_names offset [] = Inr infos"
| "fill_bones infos node_names offset (bone # bones) =
     ebind (fill_weights infos offset (indexOf node_names (mName_bone bone)) (mWeights bone))
       (\<lambda>infos'. fill_bones infos' node_names offset bones)"

text \<open>The loop over the meshes (\<open>i\<close>), with the running \<^verbatim>\<open>offset\<close>.\<close>

fun fill_meshes ::
  "SkinInfo list \<Rightarrow> string list \<Rightarrow> 32 word \<Rightarrow> aiMesh list \<Rightarrow> error + SkinInfo list" where
  "fill_meshes infos node_names offset [] = Inr infos"
| "fill_meshes infos node_names offset (mesh # rest) =
     ebind (fill_bones infos node_names offset (mBones mesh))
       (\<lambda>infos'. fill_meshes infos' node_names (offset + mNumVertices mesh) rest)"

definition fillSkinInfo :: "('m, 's) aiScene_scheme \<Rightarrow> int \<Rightarrow> error + SkinInfo list" where
  "fillSkinInfo scene vertices_count =
     (if vertices_count < 0 then Inl VectorNegativeSize
      else fill_meshes (replicate (nat vertices_count) SkinInfo_new)
             (getBoneNames scene) 0 (mMeshes scene))"

section \<open>The geometry block\<close>

fun emap :: "('a \<Rightarrow> error + 'b) \<Rightarrow> 'a list \<Rightarrow> error + 'b list" where
  "emap f [] = Inr []"
| "emap f (x # xs) = ebind (f x) (\<lambda>y. ebind (emap f xs) (\<lambda>ys. Inr (y # ys)))"

text \<open>Division of two \<^verbatim>\<open>int\<close>s truncates towards zero.\<close>

definition c_div :: "int \<Rightarrow> int \<Rightarrow> int" where
  "c_div a b = sgn a * sgn b * (\<bar>a\<bar> div \<bar>b\<bar>)"

text \<open>
  The first loop of \<^verbatim>\<open>writeGeometry\<close>: \<^verbatim>\<open>indices_count\<close> and \<^verbatim>\<open>vertices_size\<close>.
\<close>

definition geometry_totals :: "int \<Rightarrow> aiMesh list \<Rightarrow> 32 word \<times> 32 word" where
  "geometry_totals vertex_size meshes =
     foldl (\<lambda>(indices_count, vertices_size) mesh.
              (indices_count + mNumFaces mesh * 3,
               vertices_size + mNumVertices mesh * word_of_int vertex_size))
       (0, 0) meshes"

text \<open>The three indices of one face.\<close>

definition write_face :: "32 word list \<Rightarrow> error + item list" where
  "write_face mIndices =
     ebind (array_at mIndices 0) (\<lambda>i0.
     ebind (array_at mIndices 1) (\<lambda>i1.
     ebind (array_at mIndices 2) (\<lambda>i2.
       Inr [I32 i0, I32 i1, I32 i2])))"

definition write_indices :: "aiMesh list \<Rightarrow> error + item list" where
  "write_indices meshes =
     ebind (emap (\<lambda>mesh. emap write_face (mFaces mesh)) meshes) (\<lambda>blocks.
       Inr (concat (concat blocks)))"

text \<open>
  What the last loop of \<^verbatim>\<open>writeGeometry\<close> writes for one vertex, in the order of
  the fields.
\<close>

record vertex =
  skin_weights :: "rat list"
  skin_bone_indices :: "int list"
  position :: vec3
  byte_normal :: "8 word list"
  byte_tangent :: "8 word list"
  short_uv :: "16 word list"

definition write_vertex :: "vertex \<Rightarrow> item list" where
  "write_vertex v =
     map (\<lambda>w. F32 (Finite w)) (skin_weights v)
     @ map (\<lambda>b. I32 (word_of_int b)) (skin_bone_indices v)
     @ [F32 (Finite (vx (position v))), F32 (Finite (vy (position v))),
        F32 (Finite (vz (position v)))]
     @ map U8 (byte_normal v)
     @ map U8 (byte_tangent v)
     @ map I16 (short_uv v)"

text \<open>
  Vertex \<open>j\<close> of a mesh; \<open>ii\<close> counts the vertices written so far. The components
  of the normal and of the tangent are multiplied by 127, those of the texture
  coordinate by 2048, in \<^verbatim>\<open>float\<close>, and the products are converted.
\<close>

definition geometry_vertex :: "SkinInfo list \<Rightarrow> aiMesh \<Rightarrow> int \<Rightarrow> nat \<Rightarrow> error + vertex" where
  "geometry_vertex skin_infos mesh ii j =
     ebind (qvector_at skin_infos ii) (\<lambda>info.
     ebind (array_at (mVertices mesh) j) (\<lambda>p.
     ebind (array_at (mNormals mesh) j) (\<lambda>normal.
     ebind (to_int8 (float_mul (vx normal) 127)) (\<lambda>n0.
     ebind (to_int8 (float_mul (vz normal) 127)) (\<lambda>n1.
     ebind (to_int8 (float_mul (vy normal) 127)) (\<lambda>n2.
     ebind (array_at (mTangents mesh) j) (\<lambda>tangent.
     ebind (to_int8 (float_mul (vx tangent) 127)) (\<lambda>t0.
     ebind (to_int8 (float_mul (vz tangent) 127)) (\<lambda>t1.
     ebind (to_int8 (float_mul (vy tangent) 127)) (\<lambda>t2.
     ebind (array_at (mTextureCoords0 mesh) j) (\<lambda>uv.
     ebind (to_short (float_mul (vx uv) 2048)) (\<lambda>u0.
     ebind (to_short (float_mul (vy uv) 2048)) (\<lambda>u1.
       Inr \<lparr>skin_weights = weights info,
            skin_bone_indices = bone_indices info,
            position = Vec3 (vx p) (vy p) (vz p),
            byte_normal = [n0, n1, n2, 0],
            byte_tangent = [t0, t1, t2, 0],
            short_uv = [u0, u1]\<rparr>)))))))))))))"

text \<open>The loop over the vertices of one mesh (\<open>j\<close>).\<close>

fun mesh_vertices :: "SkinInfo list \<Rightarrow> aiMesh \<Rightarrow> int \<Rightarrow> nat list \<Rightarrow> error + vertex list" where
  "mesh_vertices skin_infos mesh ii [] = Inr []"
| "mesh_vertices skin_infos mesh ii (j # js) =
     ebind (geometry_vertex skin_infos mesh ii j) (\<lambda>v.
     ebind (mesh_vertices skin_infos mesh (ii + 1) js) (\<lambda>vs.
       Inr (v # vs)))"

text \<open>The loop over the meshes (\<open>i\<close>).\<close>

fun scene_vertices :: "SkinInfo list \<Rightarrow> int \<Rightarrow> aiMesh list \<Rightarrow> error + vertex list" where
  "scene_vertices skin_infos ii [] = Inr []"
| "scene_vertices skin_infos ii (mesh # rest) =
     ebind (mesh_vertices skin_infos mesh ii [0..<length (mVertices mesh)]) (\<lambda>vs.
     ebind (scene_vertices skin_infos (ii + int (length (mVertices mesh))) rest) (\<lambda>ws.
       Inr (vs @ ws)))"

definition geometry_vertices :: "('m, 's) aiScene_scheme \<Rightarrow> error + vertex list" where
  "geometry_vertices scene =
     ebind (fillSkinInfo scene
              (c_div (sint (snd (geometry_totals (getVertexSize scene) (mMeshes scene))))
                 (getVertexSize scene))) (\<lambda>skin_infos.
       scene_vertices skin_infos 0 (mMeshes scene))"

definition writeGeometry :: "('m, 's) aiScene_scheme \<Rightarrow> error + item list" where
  "writeGeometry scene =
     (let vertex_size = getVertexSize scene;
          indices_count = fst (geometry_totals vertex_size (mMeshes scene));
          vertices_size = snd (geometry_totals vertex_size (mMeshes scene))
      in
        ebind (write_indices (mMeshes scene)) (\<lambda>indices.
        ebind (geometry_vertices scene) (\<lambda>vertices.
          Inr (I32 indices_count # indices
               @ I32 vertices_size # concat (map write_vertex vertices)))))"

section \<open>The skeleton block\<close>

fun countNodes :: "'m aiNode \<Rightarrow> int" where
  "countNodes (Node nm tr children) =
     foldl (\<lambda>count child. count + countNodes child) 1 children"

text \<open>
  \<^verbatim>\<open>writeNode\<close>. \<open>parent\<close> is \<^verbatim>\<open>node->mParent\<close>: \<open>None\<close> for the null pointer.
\<close>

fun writeNode :: "'m matrix_ops \<Rightarrow> 'm aiNode \<Rightarrow> 'm aiNode option \<Rightarrow> 'm \<Rightarrow> item list" where
  "writeNode ops (Node nm tr children) parent parent_transform =
     [I32 (of_nat (length nm)), Bytes nm]
     @ (case parent of
          Some p \<Rightarrow> [I32 (of_nat (length (mName p))), Bytes (mName p)]
        | None \<Rightarrow> [I32 0])
     @ (case DecomposeNoScaling ops (mat_mult ops parent_transform tr) of
          (rot, pos) \<Rightarrow>
            [F32 (Finite (vx pos)), F32 (Finite (vy pos)), F32 (Finite (vz pos)),
             F32 (Finite (qx rot)), F32 (Finite (qy rot)), F32 (Finite (qz rot)),
             F32 (Finite (qw rot))])
     @ concat (map (\<lambda>child. writeNode ops child (Some (Node nm tr children))
                               (mat_mult ops parent_transform tr)) children)"

definition writeSkeleton :: "'m matrix_ops \<Rightarrow> ('m, 's) aiScene_scheme \<Rightarrow> item list" where
  "writeSkeleton ops scene =
     I32 (word_of_int (countNodes (mRootNode scene)))
     # writeNode ops (mRootNode scene) None (mat_identity ops)"

section \<open>The mesh file\<close>

text \<open>
  \<^verbatim>\<open>Lumix::Model::FILE_MAGIC\<close> and \<^verbatim>\<open>Lumix::Model::FileVersion::LATEST\<close> are
  declared in \<^verbatim>\<open>graphics/model.h\<close>; they are parameters here.
\<close>

record model_header =
  m_magic :: "32 word"
  m_version :: "32 word"

text \<open>
  What \<^verbatim>\<open>saveLumixMesh\<close> writes between opening and closing the file.
\<close>

definition mesh_file :: "model_header \<Rightarrow> 'm matrix_ops \<Rightarrow> ('m, 's) aiScene_scheme \<Rightarrow> error + item list" where
  "mesh_file header ops scene =
     ebind (writeMeshes scene) (\<lambda>meshes.
     ebind (writeGeometry scene) (\<lambda>geometry.
       Inr ([U32 (m_magic header), U32 (m_version header)]
            @ meshes @ geometry @ writeSkeleton ops scene
            @ [I32 1, I32 (of_nat (length (mMeshes scene)) - 1), F32 (Finite FLT_MAX)])))"

section \<open>The files outside the program\<close>

text \<open>
  The importer, the file system and the image codec are collaborators of the program.
  Their operations are parameters: each takes the state \<open>'w\<close> of the world and
  returns the new one, with its result where the source reads it.
  \<^item> \<open>ReadFile\<close>: \<^verbatim>\<open>Assimp::Importer::ReadFile\<close> with the flags of \<^verbatim>\<open>run\<close>.
  \<^item> \<open>QFile_open\<close>: \<^verbatim>\<open>QFile(path).open(QIODevice::WriteOnly)\<close>.
  \<^item> \<open>QFile_write\<close>: the calls of \<^verbatim>\<open>QFile::write\<close> on the open file of that path, with
    the values that they are given; the result is whether every one of them wrote
    its bytes. The source reads the result of no write.
  \<^item> \<open>QDir_mkpath\<close>: \<^verbatim>\<open>QDir().mkpath(path)\<close>; the source ignores its result.
  \<^item> \<open>QImageWriter_write\<close>: \<^verbatim>\<open>QImageWriter(dest).write(QImage(source).mirrored())\<close>.
  \<^item> \<open>QFile_copy\<close>: \<^verbatim>\<open>QFile::copy(source, dest)\<close>.
  \<^item> \<open>QFileInfo_path\<close>, \<open>QFileInfo_dir_path\<close>, \<open>QFileInfo_baseName\<close> and
    \<open>QFileInfo_suffix\<close>: the parts of a path.
\<close>

record ('w, 'm) environment =
  ReadFile :: "string \<Rightarrow> 'w \<Rightarrow> 'm aiScene option \<times> 'w"
  QFile_open :: "string \<Rightarrow> 'w \<Rightarrow> bool \<times> 'w"
  QFile_write :: "string \<Rightarrow> item list \<Rightarrow> 'w \<Rightarrow> bool \<times> 'w"
  QDir_mkpath :: "string \<Rightarrow> 'w \<Rightarrow> 'w"
  QImageWriter_write :: "string \<Rightarrow> string \<Rightarrow> 'w \<Rightarrow> bool \<times> 'w"
  QFile_copy :: "string \<Rightarrow> string \<Rightarrow> 'w \<Rightarrow> bool \<times> 'w"
  QFileInfo_path :: "string \<Rightarrow> string"
  QFileInfo_dir_path :: "string \<Rightarrow> string"
  QFileInfo_baseName :: "string \<Rightarrow> string"
  QFileInfo_suffix :: "string \<Rightarrow> string"

text \<open>
  What the program did to the world, in order: a file opened for writing (with
  the result), a directory path made, an image converted, a file copied (each
  with its result), text or binary items given to the writes of an open file. The
  result of a write is not among the events: the program does not look at it.
\<close>

datatype event =
    Opened string bool
  | PathMade string
  | ImageWritten string string bool
  | Copied string string bool
  | TextWritten string string
  | ItemsWritten string "item list"

record 'w state =
  world :: 'w
  trace :: "event list"

text \<open>The members of \<^verbatim>\<open>ImportThread\<close> that the writers read.\<close>

record ImportThread =
  m_source :: string
  m_destination :: string
  m_import_materials :: bool
  m_convert_texture_to_DDS :: bool

definition do_open :: "('w, 'm) environment \<Rightarrow> string \<Rightarrow> 'w state \<Rightarrow> bool \<times> 'w state" where
  "do_open env path st =
     (case QFile_open env path (world st) of
        (ok, w) \<Rightarrow> (ok, \<lparr>world = w, trace = trace st @ [Opened path ok]\<rparr>))"

definition do_mkpath :: "('w, 'm) environment \<Rightarrow> string \<Rightarrow> 'w state \<Rightarrow> 'w state" where
  "do_mkpath env path st =
     \<lparr>world = QDir_mkpath env path (world st), trace = trace st @ [PathMade path]\<rparr>"

definition do_image_write ::
  "('w, 'm) environment \<Rightarrow> string \<Rightarrow> string \<Rightarrow> 'w state \<Rightarrow> bool \<times> 'w state" where
  "do_image_write env source dest st =
     (case QImageWriter_write env source dest (world st) of
        (ok, w) \<Rightarrow> (ok, \<lparr>world = w, trace = trace st @ [ImageWritten source dest ok]\<rparr>))"

definition do_copy ::
  "('w, 'm) environment \<Rightarrow> string \<Rightarrow> string \<Rightarrow> 'w state \<Rightarrow> bool \<times> 'w state" where
  "do_copy env source dest st =
     (case QFile_copy env source dest (world st) of
        (ok, w) \<Rightarrow> (ok, \<lparr>world = w, trace = trace st @ [Copied source dest ok]\<rparr>))"

text \<open>
  The writes to an open file. \<^verbatim>\<open>QFile::write\<close> returns the number of bytes written,
  or \<open>-1\<close>; every call of the source discards it, so the result is dropped here.
\<close>

definition do_write_text ::
  "('w, 'm) environment \<Rightarrow> string \<Rightarrow> string \<Rightarrow> 'w state \<Rightarrow> 'w state" where
  "do_write_text env path text st =
     \<lparr>world = snd (QFile_write env path [Bytes text] (world st)),
      trace = trace st @ [TextWritten path text]\<rparr>"

definition do_write_items ::
  "('w, 'm) environment \<Rightarrow> string \<Rightarrow> item list \<Rightarrow> 'w state \<Rightarrow> 'w state" where
  "do_write_items env path items st =
     \<lparr>world = snd (QFile_write env path items (world st)),
      trace = trace st @ [ItemsWritten path items]\<rparr>"

text \<open>The path of the mesh file: the base name of the source under the destination.\<close>

definition mesh_path :: "('w, 'm) environment \<Rightarrow> ImportThread \<Rightarrow> string" where
  "mesh_path env thread =
     m_destination thread @ ''/'' @ QFileInfo_baseName env (m_source thread) @ ''.msh''"

text \<open>
  \<^verbatim>\<open>saveLumixMesh\<close>: \<open>False\<close> when the file cannot be opened, else the values are
  given to the writes of the file and the result is \<open>True\<close>, whatever the writes
  returned. The progress signals are left out.
\<close>

definition saveLumixMesh ::
  "('w, 'm) environment \<Rightarrow> model_header \<Rightarrow> 'm matrix_ops \<Rightarrow> ImportThread \<Rightarrow>
   ('m, 's) aiScene_scheme \<Rightarrow> 'w state \<Rightarrow> error + bool \<times> 'w state" where
  "saveLumixMesh env header ops thread scene st =
     (case do_open env (mesh_path env thread) st of
        (ok, st1) \<Rightarrow>
          if \<not> ok then Inr (False, st1)
          else ebind (mesh_file header ops scene) (\<lambda>items.
                 Inr (True, do_write_items env (mesh_path env thread) items st1)))"

section \<open>The material files\<close>

text \<open>The double quote of the material text.\<close>

definition dq :: string where
  "dq = [CHR 0x22]"

text \<open>The texts that go into a material file: the shader and the texture.\<close>

definition shader_text :: "int \<Rightarrow> string" where
  "shader_text vertex_size =
     ''{ '' @ dq @ ''shader'' @ dq @ '' : '' @ dq @ ''shaders/''
     @ (if vertex_size = SKINNED_VERTEX_SIZE then ''skinned'' else ''rigid'')
     @ ''.shd'' @ dq @ '' ''"

definition texture_text :: "('w, 'm) environment \<Rightarrow> ImportThread \<Rightarrow> string \<Rightarrow> string" where
  "texture_text env thread texture_path =
     '', '' @ dq @ ''texture'' @ dq @ '' : { '' @ dq @ ''source'' @ dq @ '' : '' @ dq
     @ (if m_convert_texture_to_DDS thread
        then QFileInfo_path env texture_path @ ''/''
             @ QFileInfo_baseName env texture_path @ ''.dds''
        else texture_path)
     @ dq @ '' }''"

text \<open>
  One pass of the loop over the diffuse textures of a material: the directory of
  the texture is made under the destination, the reference is written to the
  material file, and the texture is converted or copied. The result is that of the
  conversion or of the copy.
\<close>

definition texture_pass ::
  "('w, 'm) environment \<Rightarrow> ImportThread \<Rightarrow> string \<Rightarrow> string \<Rightarrow> 'w state \<Rightarrow> bool \<times> 'w state" where
  "texture_pass env thread file texture_path st =
     (let st1 = do_mkpath env (m_destination thread @ ''/'' @ QFileInfo_path env texture_path) st;
          st2 = do_write_text env file (texture_text env thread texture_path) st1
      in if m_convert_texture_to_DDS thread \<and> QFileInfo_suffix env texture_path \<noteq> ''dds''
         then do_image_write env
                (QFileInfo_path env (m_source thread) @ ''/'' @ texture_path)
                (m_destination thread @ ''/'' @ QFileInfo_path env texture_path @ ''/''
                 @ QFileInfo_baseName env texture_path @ ''.dds'') st2
         else do_copy env
                (QFileInfo_dir_path env (m_source thread) @ ''/'' @ texture_path)
                (m_destination thread @ ''/'' @ texture_path) st2)"

text \<open>
  The loop over the diffuse textures of one material (\<open>j\<close>); \<open>n\<close> passes are left.
  Every pass reads texture 0: \<^verbatim>\<open>material->GetTexture(aiTextureType_DIFFUSE, 0, &texture_path)\<close>.
\<close>

fun textures_loop ::
  "('w, 'm) environment \<Rightarrow> ImportThread \<Rightarrow> string \<Rightarrow> string \<Rightarrow> nat \<Rightarrow>
   bool \<times> 'w state \<Rightarrow> bool \<times> 'w state" where
  "textures_loop env thread file texture_path 0 (success, st) = (success, st)"
| "textures_loop env thread file texture_path (Suc n) (success, st) =
     (case texture_pass env thread file texture_path st of
        (ok, st1) \<Rightarrow>
          textures_loop env thread file texture_path n (if \<not> ok then False else success, st1))"

definition material_path :: "ImportThread \<Rightarrow> aiMaterial \<Rightarrow> string" where
  "material_path thread material = m_destination thread @ ''/'' @ AI_MATKEY_NAME material @ ''.mat''"

text \<open>
  What the loop over the materials does with a material file that it has opened:
  the shader, the textures, the closing brace.
\<close>

definition write_material ::
  "('w, 'm) environment \<Rightarrow> ImportThread \<Rightarrow> int \<Rightarrow> aiMaterial \<Rightarrow> bool \<Rightarrow> 'w state \<Rightarrow>
   bool \<times> 'w state" where
  "write_material env thread vertex_size material success st =
     (let st1 = do_write_text env (material_path thread material) (shader_text vertex_size) st
      in case (case aiTextureType_DIFFUSE material of
                 [] \<Rightarrow> (success, st1)
               | texture_path # others \<Rightarrow>
                   textures_loop env thread (material_path thread material) texture_path
                     (length (aiTextureType_DIFFUSE material)) (success, st1)) of
           (success', st2) \<Rightarrow>
             (success', do_write_text env (material_path thread material) ''}'' st2))"

text \<open>The loop over the materials (\<open>i\<close>).\<close>

fun materials_loop ::
  "('w, 'm) environment \<Rightarrow> ImportThread \<Rightarrow> int \<Rightarrow> aiMaterial list \<Rightarrow>
   bool \<times> 'w state \<Rightarrow> bool \<times> 'w state" where
  "materials_loop env thread vertex_size [] (success, st) = (success, st)"
| "materials_loop env thread vertex_size (material # rest) (success, st) =
     (case do_open env (material_path thread material) st of
        (ok, st1) \<Rightarrow>
          if ok then
            materials_loop env thread vertex_size rest
              (write_material env thread vertex_size material success st1)
          else materials_loop env thread vertex_size rest (False, st1))"

definition saveLumixMaterials ::
  "('w, 'm) environment \<Rightarrow> ImportThread \<Rightarrow> ('m, 's) aiScene_scheme \<Rightarrow> 'w state \<Rightarrow> bool \<times> 'w state" where
  "saveLumixMaterials env thread scene st =
     (if \<not> m_import_materials thread then (True, st)
      else materials_loop env thread (getVertexSize scene) (mMaterials scene) (True, st))"

text \<open>
  \<^verbatim>\<open>ImportThread::run\<close>. \<open>loaded\<close> is \<^verbatim>\<open>m_importer.GetScene()\<close>: without a scene
  the run loads one and saves nothing; with a scene it saves the mesh and, when
  that returned \<open>True\<close>, the materials. The result is the scene of the importer and
  the state.
\<close>

definition run ::
  "('w, 'm) environment \<Rightarrow> model_header \<Rightarrow> 'm matrix_ops \<Rightarrow> ImportThread \<Rightarrow>
   'm aiScene option \<Rightarrow> 'w state \<Rightarrow> error + 'm aiScene option \<times> 'w state" where
  "run env header ops thread loaded st =
     (case loaded of
        None \<Rightarrow>
          (case ReadFile env (m_source thread) (world st) of
             (scene, w) \<Rightarrow> Inr (scene, st\<lparr>world := w\<rparr>))
      | Some scene \<Rightarrow>
          ebind (saveLumixMesh env header ops thread scene st) (\<lambda>(saved, st1).
            if saved then Inr (Some scene, snd (saveLumixMaterials env thread scene st1))
            else Inr (Some scene, st1)))"

section \<open>Sampling a channel\<close>

text \<open>
  The scan of \<^verbatim>\<open>getPosition\<close>:
  \<^verbatim>\<open>while (frame > (float)channel->mPositionKeys[i].mTime && i < channel->mNumPositionKeys) ++i;\<close>
  The key is read before \<open>i\<close> is compared with the key count, so the scan reads
  past the array when every key time is below the frame.
\<close>

function getPosition_scan :: "aiVectorKey list \<Rightarrow> rat \<Rightarrow> nat \<Rightarrow> error + nat" where
  "getPosition_scan keys frame i =
     (case array_at keys i of
        Inl e \<Rightarrow> Inl e
      | Inr k \<Rightarrow>
          if frame > mTime k \<and> i < length keys
          then getPosition_scan keys frame (i + 1)
          else Inr i)"
  by pat_completeness auto
termination
  by (relation "measure (\<lambda>(keys, frame, i). length keys - i)") auto

declare getPosition_scan.simps [simp del]

definition getPosition :: "aiNodeAnim \<Rightarrow> rat \<Rightarrow> error + vec3" where
  "getPosition channel frame =
     ebind (getPosition_scan (mPositionKeys channel) frame 0) (\<lambda>i.
     ebind (array_at (mPositionKeys channel) i) (\<lambda>k1.
       let first = mValue k1 in
       if i + 1 = length (mPositionKeys channel) then Inr first
       else
         ebind (array_at (mPositionKeys channel) (i + 1)) (\<lambda>k2.
           let second = mValue k2 in
           if mTime k2 - mTime k1 = 0 then Inl FloatDivideByZero
           else
             let t = (frame - mTime k1) / (mTime k2 - mTime k1) in
             Inr (vec3_add (vec3_scale first (1 - t)) (vec3_scale second t)))))"

text \<open>
  \<^verbatim>\<open>getRotation\<close> has the same scan over the rotation keys.
  \<^verbatim>\<open>aiQuaternion::Interpolate\<close> is a parameter.
\<close>

function getRotation_scan :: "aiQuatKey list \<Rightarrow> rat \<Rightarrow> nat \<Rightarrow> error + nat" where
  "getRotation_scan keys frame i =
     (case array_at keys i of
        Inl e \<Rightarrow> Inl e
      | Inr k \<Rightarrow>
          if frame > mTime_q k \<and> i < length keys
          then getRotation_scan keys frame (i + 1)
          else Inr i)"
  by pat_completeness auto
termination
  by (relation "measure (\<lambda>(keys, frame, i). length keys - i)") auto

declare getRotation_scan.simps [simp del]

definition getRotation ::
  "(quat \<Rightarrow> quat \<Rightarrow> rat \<Rightarrow> quat) \<Rightarrow> aiNodeAnim \<Rightarrow> rat \<Rightarrow> error + quat" where
  "getRotation Interpolate channel frame =
     ebind (getRotation_scan (mRotationKeys channel) frame 0) (\<lambda>i.
     ebind (array_at (mRotationKeys channel) i) (\<lambda>k1.
       let first = mValue_q k1 in
       if i + 1 = length (mRotationKeys channel) then Inr first
       else
         ebind (array_at (mRotationKeys channel) (i + 1)) (\<lambda>k2.
           let second = mValue_q k2 in
           if mTime_q k2 - mTime_q k1 = 0 then Inl FloatDivideByZero
           else
             let t = (frame - mTime_q k1) / (mTime_q k2 - mTime_q k1) in
             Inr (Interpolate first second t))))"

section \<open>The animation file\<close>

text \<open>
  Assignment to element \<open>i\<close> of a \<^verbatim>\<open>QVector\<close>. An element is \<open>None\<close> until it is
  assigned: \<^verbatim>\<open>resize\<close> leaves a \<^verbatim>\<open>Vec3\<close> or \<^verbatim>\<open>Quat\<close> as its default constructor
  does.
\<close>

definition qvector_set :: "'a option list \<Rightarrow> int \<Rightarrow> 'a \<Rightarrow> error + 'a option list" where
  "qvector_set xs i v =
     (if 0 \<le> i \<and> i < int (length xs) then Inr (xs[nat i := Some v])
      else Inl VectorIndexOutOfRange)"

text \<open>The loop over the frames of one channel.\<close>

fun fill_frames ::
  "(quat \<Rightarrow> quat \<Rightarrow> rat \<Rightarrow> quat) \<Rightarrow> aiNodeAnim \<Rightarrow> int \<Rightarrow> int \<Rightarrow> int list \<Rightarrow>
   vec3 option list \<times> quat option list \<Rightarrow> error + vec3 option list \<times> quat option list" where
  "fill_frames Interpolate channel bone_count bone_index [] (positions, rotations) =
     Inr (positions, rotations)"
| "fill_frames Interpolate channel bone_count bone_index (frame # frames) (positions, rotations) =
     ebind (getPosition channel (of_int frame)) (\<lambda>p.
     ebind (qvector_set positions (frame * bone_count + bone_index) p) (\<lambda>positions'.
     ebind (getRotation Interpolate channel (of_int frame)) (\<lambda>r.
     ebind (qvector_set rotations (frame * bone_count + bone_index) r) (\<lambda>rotations'.
       fill_frames Interpolate channel bone_count bone_index frames (positions', rotations')))))"

text \<open>The loop over the channels of the animation.\<close>

fun fill_channels ::
  "(quat \<Rightarrow> quat \<Rightarrow> rat \<Rightarrow> quat) \<Rightarrow> string list \<Rightarrow> int \<Rightarrow> int \<Rightarrow> aiNodeAnim list \<Rightarrow>
   vec3 option list \<times> quat option list \<Rightarrow> error + vec3 option list \<times> quat option list" where
  "fill_channels Interpolate bone_names bone_count frame_count [] arrays = Inr arrays"
| "fill_channels Interpolate bone_names bone_count frame_count (channel # channels) arrays =
     ebind (fill_frames Interpolate channel bone_count
              (indexOf bone_names (mNodeName channel))
              (map int [0..<nat frame_count]) arrays) (\<lambda>arrays'.
       fill_channels Interpolate bone_names bone_count frame_count channels arrays')"

definition write_position :: "vec3 option \<Rightarrow> item list" where
  "write_position p =
     (case p of
        None \<Rightarrow> [Unassigned 12]
      | Some v \<Rightarrow> [F32 (Finite (vx v)), F32 (Finite (vy v)), F32 (Finite (vz v))])"

definition write_rotation :: "quat option \<Rightarrow> item list" where
  "write_rotation r =
     (case r of
        None \<Rightarrow> [Unassigned 16]
      | Some q \<Rightarrow> [F32 (Finite (qx q)), F32 (Finite (qy q)), F32 (Finite (qz q)),
                   F32 (Finite (qw q))])"

text \<open>
  The collaborators of the animation writer: \<^verbatim>\<open>Lumix::Animation::HEADER_MAGIC\<close>,
  the string hash \<^verbatim>\<open>crc32\<close> of the engine and \<^verbatim>\<open>aiQuaternion::Interpolate\<close>.
\<close>

record animation_ops =
  HEADER_MAGIC :: "32 word"
  crc32 :: "string \<Rightarrow> 32 word"
  Interpolate :: "quat \<Rightarrow> quat \<Rightarrow> rat \<Rightarrow> quat"

text \<open>
  What \<^verbatim>\<open>importAnimation\<close> writes to one open file.

  Modelled from the spec: the layout of \<^verbatim>\<open>Lumix::Animation::Header\<close> is declared in
  \<^verbatim>\<open>animation/animation.h\<close>; the header is written as the spec gives it (magic,
  version, fps as a float).
\<close>

definition animation_file ::
  "animation_ops \<Rightarrow> string list \<Rightarrow> aiAnimation \<Rightarrow> error + item list" where
  "animation_file aops bone_names animation =
     (let fps = (if mTicksPerSecond animation = 0 then 25 else mTicksPerSecond animation) in
      ebind (to_int32 (mDuration animation)) (\<lambda>frame_count.
        let bone_count = int (length (mChannels animation)) in
        if bone_count * frame_count < 0 then Inl VectorNegativeSize
        else if 2147483647 < bone_count * frame_count then Inl SignedIntegerOverflow
        else
          ebind (fill_channels (Interpolate aops) bone_names bone_count frame_count
                   (mChannels animation)
                   (replicate (nat (bone_count * frame_count)) None,
                    replicate (nat (bone_count * frame_count)) None)) (\<lambda>(positions, rotations).
            if positions = [] then Inl VectorIndexOutOfRange
            else
              Inr ([U32 (HEADER_MAGIC aops), U32 1, F32 (Finite fps),
                    I32 (word_of_int frame_count), I32 (word_of_int bone_count)]
                   @ concat (map write_position positions)
                   @ concat (map write_rotation rotations)
                   @ map (\<lambda>bone_name. U32 (crc32 aops bone_name)) bone_names))))"

text \<open>
  The loop of \<^verbatim>\<open>importAnimation\<close> over \<^verbatim>\<open>mNumAnimations\<close>; \<open>n\<close> passes are left.
  Every pass takes \<^verbatim>\<open>mAnimations[0]\<close>.
\<close>

fun importAnimation_loop ::
  "('w, 'm) environment \<Rightarrow> animation_ops \<Rightarrow> string \<Rightarrow> string list \<Rightarrow> aiAnimation list \<Rightarrow>
   nat \<Rightarrow> 'w state \<Rightarrow> error + 'w state" where
  "importAnimation_loop env aops destination bone_names animations 0 st = Inr st"
| "importAnimation_loop env aops destination bone_names animations (Suc n) st =
     ebind (array_at animations 0) (\<lambda>animation.
       case do_open env (destination @ ''/'' @ mName_anim animation @ ''.ani'') st of
         (ok, st1) \<Rightarrow>
           if ok then
             ebind (animation_file aops bone_names animation) (\<lambda>items.
               importAnimation_loop env aops destination bone_names animations n
                 (do_write_items env (destination @ ''/'' @ mName_anim animation @ ''.ani'')
                    items st1))
           else importAnimation_loop env aops destination bone_names animations n st1)"

definition importAnimation ::
  "('w, 'm) environment \<Rightarrow> animation_ops \<Rightarrow> string \<Rightarrow> ('m, 's) aiScene_scheme \<Rightarrow>
   'w state \<Rightarrow> error + 'w state" where
  "importAnimation env aops destination scene st =
     importAnimation_loop env aops destination (getBoneNames scene) (mAnimations scene)
       (length (mAnimations scene)) st"

section \<open>The layouts of the specification\<close>

text \<open>
  The definitions of this section follow the words of the specification; the
  theorems compare them with the writers above.
\<close>

text \<open>
  A normal or tangent packed as signed bytes \<open>(x*127, z*127, y*127, 0)\<close>: each
  product is a \<^verbatim>\<open>float\<close> product, cut to an integer.
\<close>

definition packed_byte4 :: "vec3 \<Rightarrow> int list" where
  "packed_byte4 n =
     [float_trunc (float_mul (vx n) 127), float_trunc (float_mul (vz n) 127),
      float_trunc (float_mul (vy n) 127), 0]"

text \<open>The signed value of a written byte; nothing for a value that is no byte.\<close>

fun byte_value :: "item \<Rightarrow> int option" where
  "byte_value (U8 b) = Some (sint b)"
| "byte_value (I32 w) = None"
| "byte_value (U32 w) = None"
| "byte_value (F32 f) = None"
| "byte_value (Bytes s) = None"
| "byte_value (I16 h) = None"
| "byte_value (Unassigned n) = None"

text \<open>The number of vertices and the number of faces of the scene.\<close>

definition scene_vertex_count :: "('m, 's) aiScene_scheme \<Rightarrow> nat" where
  "scene_vertex_count scene = sum_list (map (\<lambda>mesh. length (mVertices mesh)) (mMeshes scene))"

definition scene_faces :: "('m, 's) aiScene_scheme \<Rightarrow> nat" where
  "scene_faces scene = sum_list (map (\<lambda>mesh. length (mFaces mesh)) (mMeshes scene))"

text \<open>
  The values of vertex \<open>k\<close> in a geometry block: the block starts with the index
  count, three indices for each face and the size of the vertices; a vertex has 21
  values (four weights, four bone indices, three coordinates, four bytes of the
  normal, four bytes of the tangent, two shorts).
\<close>

definition vertex_items :: "('m, 's) aiScene_scheme \<Rightarrow> item list \<Rightarrow> nat \<Rightarrow> item list" where
  "vertex_items scene geometry k = take 21 (drop (2 + 3 * scene_faces scene + 21 * k) geometry)"

text \<open>The normals and the tangents of the vertices of the scene, mesh by mesh.\<close>

definition scene_normals :: "('m, 's) aiScene_scheme \<Rightarrow> vec3 list" where
  "scene_normals scene =
     concat (map (\<lambda>mesh. take (length (mVertices mesh)) (mNormals mesh)) (mMeshes scene))"

definition scene_tangents :: "('m, 's) aiScene_scheme \<Rightarrow> vec3 list" where
  "scene_tangents scene =
     concat (map (\<lambda>mesh. take (length (mVertices mesh)) (mTangents mesh)) (mMeshes scene))"

text \<open>The nodes of a tree in depth-first pre-order: a node, then its subtrees in order.\<close>

fun preorder :: "'m aiNode \<Rightarrow> 'm aiNode list" where
  "preorder (Node nm tr children) = Node nm tr children # concat (map preorder children)"

text \<open>
  The same order, each node given by its path from the root: the root, its
  ancestors in between, the node itself last.
\<close>

fun paths :: "'m aiNode \<Rightarrow> 'm aiNode list list" where
  "paths (Node nm tr children) =
     [Node nm tr children] # map ((#) (Node nm tr children)) (concat (map paths children))"

text \<open>
  The entry of the skeleton block for the node at the end of a path: its name, the
  name of its parent (length 0 and no bytes for the root), then translation and
  rotation of the product of the local transformations along the path.
\<close>

definition skeleton_entry :: "'m matrix_ops \<Rightarrow> 'm aiNode list \<Rightarrow> item list" where
  "skeleton_entry ops path =
     [I32 (of_nat (length (mName (last path)))), Bytes (mName (last path))]
     @ (if length path = 1 then [I32 0]
        else [I32 (of_nat (length (mName (last (butlast path))))),
              Bytes (mName (last (butlast path)))])
     @ (case DecomposeNoScaling ops
               (foldl (mat_mult ops) (mat_identity ops) (map mTransformation path)) of
          (rot, pos) \<Rightarrow>
            [F32 (Finite (vx pos)), F32 (Finite (vy pos)), F32 (Finite (vz pos)),
             F32 (Finite (qx rot)), F32 (Finite (qy rot)), F32 (Finite (qz rot)),
             F32 (Finite (qw rot))])"

text \<open>The parent pointer of a node whose ancestors are \<open>pre\<close>, the root first.\<close>

definition parent_of :: "'m aiNode list \<Rightarrow> 'm aiNode option" where
  "parent_of pre = (if pre = [] then None else Some (last pre))"

text \<open>
  An event that is a failure: a file that did not open, a texture that was not
  converted, a texture that was not copied.
\<close>

fun failed :: "event \<Rightarrow> bool" where
  "failed (Opened path ok) = (\<not> ok)"
| "failed (ImageWritten source dest ok) = (\<not> ok)"
| "failed (Copied source dest ok) = (\<not> ok)"
| "failed (PathMade path) = False"
| "failed (TextWritten path text) = False"
| "failed (ItemsWritten path items) = False"

text \<open>The paths of the files that the program tried to open, in order.\<close>

fun opened_paths :: "event list \<Rightarrow> string list" where
  "opened_paths [] = []"
| "opened_paths (Opened path ok # events) = path # opened_paths events"
| "opened_paths (e # events) = opened_paths events"

section \<open>Invariants and sizes\<close>

text \<open>
  A \<^verbatim>\<open>SkinInfo\<close> in order: both arrays have their four elements, the counter is
  between 0 and 4, and the slots from the counter on are zero.
\<close>

definition skin_ok :: "SkinInfo \<Rightarrow> bool" where
  "skin_ok info \<longleftrightarrow>
     length (weights info) = 4 \<and> length (bone_indices info) = 4
   \<and> 0 \<le> index info \<and> index info \<le> 4
   \<and> drop (nat (index info)) (weights info) = replicate (4 - nat (index info)) 0
   \<and> drop (nat (index info)) (bone_indices info) = replicate (4 - nat (index info)) 0"

text \<open>The number of bytes that a written value takes in the file.\<close>

fun item_size :: "item \<Rightarrow> nat" where
  "item_size (I32 w) = 4"
| "item_size (U32 w) = 4"
| "item_size (F32 f) = 4"
| "item_size (Bytes s) = length s"
| "item_size (U8 b) = 1"
| "item_size (I16 h) = 2"
| "item_size (Unassigned n) = n"

section \<open>Example scenes\<close>

text \<open>
  The example matrices are integers: the product is the sum, the identity is 0 and
  the decomposition of \<open>m\<close> is the translation \<open>(m, 0, 0)\<close> with the unit rotation.
\<close>

definition line_ops :: "int matrix_ops" where
  "line_ops = \<lparr>mat_identity = 0, mat_mult = (\<lambda>a b. a + b),
                DecomposeNoScaling = (\<lambda>m. (Quat 0 0 0 1, Vec3 (of_int m) 0 0))\<rparr>"

text \<open>A quad of two triangles in the plane \<open>y = 0\<close>, its normals pointing up.\<close>

definition quad_mesh :: aiMesh where
  "quad_mesh =
     \<lparr>mVertices = [Vec3 0 0 0, Vec3 1 0 0, Vec3 1 0 1, Vec3 0 0 1],
      mNormals = [Vec3 0 1 0, Vec3 0 1 0, Vec3 0 1 0, Vec3 0 1 0],
      mTangents = [Vec3 1 0 0, Vec3 1 0 0, Vec3 1 0 0, Vec3 1 0 0],
      mTextureCoords0 = [Vec3 0 0 0, Vec3 1 0 0, Vec3 1 1 0, Vec3 0 1 0],
      mFaces = [[0, 1, 2], [0, 2, 3]],
      mBones = [],
      mMaterialIndex = 0\<rparr>"

text \<open>
  The quad with other normals and tangents. \<open>5033165 / 8388608\<close> and
  \<open>13421773 / 16777216\<close> are the \<^verbatim>\<open>float\<close>s nearest to \<open>3 / 5\<close> and \<open>4 / 5\<close>.
  \<open>2113665 / 268435456\<close> is the \<^verbatim>\<open>float\<close> nearest to \<open>1 / 127\<close>: it is below
  \<open>1 / 127\<close>, and its \<^verbatim>\<open>float\<close> product with 127 is 1.
\<close>

definition tilted_mesh :: aiMesh where
  "tilted_mesh =
     quad_mesh\<lparr>mNormals := [Vec3 (5033165 / 8388608) 0 (13421773 / 16777216),
                            Vec3 (2113665 / 268435456) 0 (- 1),
                            Vec3 0 1 0,
                            Vec3 (- 1) 0 0],
               mTangents := [Vec3 (13421773 / 16777216) 0 (- (5033165 / 8388608)),
                             Vec3 1 0 0, Vec3 1 0 0, Vec3 0 0 1]\<rparr>"

text \<open>The quad under a root without children, with the material \<open>Mat\<close>.\<close>

definition quad_scene :: "int aiScene" where
  "quad_scene =
     \<lparr>mRootNode = Node ''root'' 0 [],
      mMeshes = [quad_mesh],
      mMaterials = [\<lparr>AI_MATKEY_NAME = ''Mat'', aiTextureType_DIFFUSE = []\<rparr>],
      mAnimations = []\<rparr>"

text \<open>The quad with the other normals, under a root with a child.\<close>

definition tilted_scene :: "int aiScene" where
  "tilted_scene = quad_scene\<lparr>mRootNode := Node ''root'' 0 [Node ''child'' 1 []],
                             mMeshes := [tilted_mesh]\<rparr>"


text \<open>The quad with two bones, under a root with two children and a grandchild.\<close>

definition arm_scene :: "int aiScene" where
  "arm_scene =
     \<lparr>mRootNode = Node ''root'' 2 [Node ''arm'' 3 [Node ''hand'' 4 []], Node ''leg'' 5 []],
      mMeshes = [quad_mesh\<lparr>mBones :=
                   [\<lparr>mName_bone = ''root'',
                      mWeights = [VertexWeight 0 1, VertexWeight 1 1, VertexWeight 2 (1 / 2)]\<rparr>,
                    \<lparr>mName_bone = ''arm'',
                      mWeights = [VertexWeight 2 (1 / 2), VertexWeight 3 1]\<rparr>]\<rparr>],
      mMaterials = [\<lparr>AI_MATKEY_NAME = ''Mat'', aiTextureType_DIFFUSE = []\<rparr>],
      mAnimations = []\<rparr>"

text \<open>A mesh of one vertex that five bones influence.\<close>

definition five_bone_scene :: "int aiScene" where
  "five_bone_scene =
     \<lparr>mRootNode = Node ''b0'' 0
                    [Node ''b1'' 0 [], Node ''b2'' 0 [], Node ''b3'' 0 [], Node ''b4'' 0 []],
      mMeshes = [\<lparr>mVertices = [Vec3 0 0 0], mNormals = [Vec3 0 1 0],
                  mTangents = [Vec3 1 0 0], mTextureCoords0 = [Vec3 0 0 0], mFaces = [],
                  mBones = map (\<lambda>n. \<lparr>mName_bone = n, mWeights = [VertexWeight 0 (1 / 5)]\<rparr>)
                             [''b0'', ''b1'', ''b2'', ''b3'', ''b4''],
                  mMaterialIndex = 0\<rparr>],
      mMaterials = [\<lparr>AI_MATKEY_NAME = ''Mat'', aiTextureType_DIFFUSE = []\<rparr>],
      mAnimations = []\<rparr>"

text \<open>The quad with three materials; the third has two diffuse textures.\<close>

definition materials_scene :: "int aiScene" where
  "materials_scene =
     quad_scene\<lparr>mMaterials :=
       [\<lparr>AI_MATKEY_NAME = ''Mat'', aiTextureType_DIFFUSE = []\<rparr>,
        \<lparr>AI_MATKEY_NAME = ''Bad'', aiTextureType_DIFFUSE = [''wood.png'']\<rparr>,
        \<lparr>AI_MATKEY_NAME = ''Wood'', aiTextureType_DIFFUSE = [''wood.png'', ''bark.png'']\<rparr>]\<rparr>"

text \<open>
  A clip of one tick with one channel, for the node \<open>root\<close> of a tree of two
  nodes.
\<close>

definition walk :: aiAnimation where
  "walk = \<lparr>mName_anim = ''walk'', mDuration = 1, mTicksPerSecond = 0,
            mChannels = [\<lparr>mNodeName = ''root'',
                          mPositionKeys = [VectorKey 0 (Vec3 1 2 3)],
                          mRotationKeys = [QuatKey 0 (Quat 0 0 0 1)]\<rparr>]\<rparr>"

definition walk_scene :: "int aiScene" where
  "walk_scene = quad_scene\<lparr>mRootNode := Node ''root'' 0 [Node ''child'' 1 []],
                           mAnimations := [walk]\<rparr>"

section \<open>An example environment\<close>

text \<open>
  The world is the list of the files that exist. A file opens for writing unless it
  lies under \<open>locked/\<close> or is \<open>out/Bad.mat\<close>; every write to an open file succeeds;
  a copy fails when the destination exists; the codec has no writer for the target
  format. The parts of a path are cut at the last \<open>/\<close> and at the dots of the file
  name.
\<close>

definition file_name :: "string \<Rightarrow> string" where
  "file_name path = rev (takeWhile (\<lambda>c. c \<noteq> CHR ''/'') (rev path))"

definition dir_name :: "string \<Rightarrow> string" where
  "dir_name path =
     (if CHR ''/'' \<in> set path then rev (drop 1 (dropWhile (\<lambda>c. c \<noteq> CHR ''/'') (rev path)))
      else ''.'')"

definition base_name :: "string \<Rightarrow> string" where
  "base_name path = takeWhile (\<lambda>c. c \<noteq> CHR ''.'') (file_name path)"

definition suffix_of :: "string \<Rightarrow> string" where
  "suffix_of path =
     (if CHR ''.'' \<in> set (file_name path)
      then rev (takeWhile (\<lambda>c. c \<noteq> CHR ''.'') (rev (file_name path)))
      else [])"

definition example_env :: "(string list, int) environment" where
  "example_env =
     \<lparr>ReadFile = (\<lambda>path w. (None, w)),
      QFile_open = (\<lambda>path w. (take 7 path \<noteq> ''locked/'' \<and> path \<noteq> ''out/Bad.mat'', w)),
      QFile_write = (\<lambda>path items w. (True, w)),
      QDir_mkpath = (\<lambda>path w. w),
      QImageWriter_write = (\<lambda>source dest w. (False, w)),
      QFile_copy = (\<lambda>source dest w. (dest \<notin> set w, if dest \<in> set w then w else dest # w)),
      QFileInfo_path = dir_name,
      QFileInfo_dir_path = dir_name,
      QFileInfo_baseName = base_name,
      QFileInfo_suffix = suffix_of\<rparr>"

text \<open>The same world with a full disk: a file opens, and every write to it fails.\<close>

definition full_disk_env :: "(string list, int) environment" where
  "full_disk_env = example_env\<lparr>QFile_write := (\<lambda>path items w. (False, w))\<rparr>"

definition example_header :: model_header where
  "example_header = \<lparr>m_magic = 0x5F4C4D4F, m_version = 1\<rparr>"

definition example_thread :: ImportThread where
  "example_thread = \<lparr>m_source = ''in/quad.obj'', m_destination = ''out'',
                      m_import_materials = True, m_convert_texture_to_DDS = False\<rparr>"

definition locked_thread :: ImportThread where
  "locked_thread = example_thread\<lparr>m_destination := ''locked''\<rparr>"

definition start :: "string list state" where
  "start = \<lparr>world = [], trace = []\<rparr>"

text \<open>A stand-in for the string hash: the sum of the character codes.\<close>

definition example_aops :: animation_ops where
  "example_aops =
     \<lparr>HEADER_MAGIC = 0x5F4C4146,
      crc32 = (\<lambda>s. of_nat (sum_list (map of_char s))),
      Interpolate = (\<lambda>first second t. first)\<rparr>"

section \<open>Properties\<close>

subsection \<open>Errors\<close>

lemma ebind_Inr_iff: "ebind m f = Inr y \<longleftrightarrow> (\<exists>v. m = Inr v \<and> f v = Inr y)"
  by (cases m) (simp_all add: ebind_def)

lemma not_isl_Inr: "\<not> isl m \<Longrightarrow> \<exists>v. m = Inr v"
  by (cases m) simp_all

lemma Inr_projr: "\<exists>v. m = Inr v \<Longrightarrow> m = Inr (projr m)"
  by auto

subsection \<open>Arithmetic in single precision\<close>

text \<open>Products that are \<^verbatim>\<open>float\<close>s: nothing is rounded away.\<close>

lemma float_mul_exact:
  "float_mul 0 127 = 0" "float_mul 1 127 = 127" "float_mul (- 1) 127 = - 127"
  "float_mul 0 2048 = 0" "float_mul 1 2048 = 2048"
  by code_simp+

subsection \<open>Sampling a channel\<close>

text \<open>
  The scan returns the first key, from \<open>i\<close> on, whose time is not below the frame,
  and leaves the array when there is none.
\<close>

lemma getPosition_scan_step:
  "getPosition_scan keys frame i =
     (if i < length keys
      then (if frame > mTime (keys ! i) then getPosition_scan keys frame (Suc i) else Inr i)
      else Inl ArrayOutOfBounds)"
  by (subst getPosition_scan.simps) (simp add: array_at_def)

lemma getPosition_scan_first:
  "getPosition_scan keys frame i = Inr j \<Longrightarrow>
     i \<le> j \<and> j < length keys \<and> frame \<le> mTime (keys ! j)
     \<and> (\<forall>k. i \<le> k \<and> k < j \<longrightarrow> mTime (keys ! k) < frame)"
proof (induction keys frame i rule: getPosition_scan.induct)
  case (1 keys frame i)
  show ?case
  proof (cases "i < length keys \<and> mTime (keys ! i) < frame")
    case True
    with "1.prems" have next_: "getPosition_scan keys frame (i + 1) = Inr j"
      by (simp add: getPosition_scan_step)
    from True have "array_at keys i = Inr (keys ! i)" by (simp add: array_at_def)
    from "1.IH" [OF this _ next_] True
    have ih: "i + 1 \<le> j \<and> j < length keys \<and> frame \<le> mTime (keys ! j)
       \<and> (\<forall>k. i + 1 \<le> k \<and> k < j \<longrightarrow> mTime (keys ! k) < frame)"
      by simp
    have "mTime (keys ! k) < frame" if "i \<le> k" "k < j" for k
    proof (cases "k = i")
      case True
      with \<open>i < length keys \<and> mTime (keys ! i) < frame\<close> show ?thesis by simp
    next
      case False
      with that ih show ?thesis by simp
    qed
    with ih show ?thesis by simp
  next
    case False
    with "1.prems" show ?thesis
      by (auto simp: getPosition_scan_step [of keys frame i] split: if_splits)
  qed
qed

lemma getPosition_scan_all_below:
  "getPosition_scan keys frame i = Inl e \<Longrightarrow>
     e = ArrayOutOfBounds \<and> (\<forall>k. i \<le> k \<and> k < length keys \<longrightarrow> mTime (keys ! k) < frame)"
proof (induction keys frame i rule: getPosition_scan.induct)
  case (1 keys frame i)
  show ?case
  proof (cases "i < length keys")
    case False
    with "1.prems" show ?thesis by (simp add: getPosition_scan_step [of keys frame i])
  next
    case True
    with "1.prems" have below: "mTime (keys ! i) < frame"
      and next_: "getPosition_scan keys frame (i + 1) = Inl e"
      by (auto simp: getPosition_scan_step [of keys frame i] split: if_splits)
    from True have "array_at keys i = Inr (keys ! i)" by (simp add: array_at_def)
    from "1.IH" [OF this _ next_] True below
    have ih: "e = ArrayOutOfBounds
       \<and> (\<forall>k. i + 1 \<le> k \<and> k < length keys \<longrightarrow> mTime (keys ! k) < frame)"
      by simp
    have "mTime (keys ! k) < frame" if "i \<le> k" "k < length keys" for k
      using that ih below by (cases "k = i") simp_all
    with ih show ?thesis by simp
  qed
qed

text \<open>
  So on two keys, a frame after the first key and up to the second gets the value
  of the second key, and a frame after both leaves the array.
\<close>

lemma getPosition_two_keys_between:
  assumes "t0 < frame" and "frame \<le> t1"
  shows "getPosition \<lparr>mNodeName = n, mPositionKeys = [VectorKey t0 v0, VectorKey t1 v1],
                       mRotationKeys = rs\<rparr> frame = Inr v1"
  using assms
  by (simp add: getPosition_def getPosition_scan_step ebind_def array_at_def)

lemma getPosition_two_keys_beyond:
  assumes "t0 < frame" and "t1 < frame"
  shows "getPosition \<lparr>mNodeName = n, mPositionKeys = [VectorKey t0 v0, VectorKey t1 v1],
                       mRotationKeys = rs\<rparr> frame = Inl ArrayOutOfBounds"
  using assms
  by (simp add: getPosition_def getPosition_scan_step ebind_def array_at_def)

text \<open>
  C1. On the channel with position keys \<open>{t=0: (0,0,0), t=10: (10,0,0)}\<close> the
  sampler returns the later key \<open>(10,0,0)\<close> at frame 5, not the interpolated
  \<open>(5,0,0)\<close>: the scan stops at the first key whose time is not below the frame, and
  that key is the last one. At frame 15, beyond the last key, the scan reads
  \<^verbatim>\<open>mPositionKeys[2]\<close>, outside the two-element array.
\<close>

theorem getPosition_two_keys_frame5_frame15:
  "getPosition \<lparr>mNodeName = ''bone'',
       mPositionKeys = [VectorKey 0 (Vec3 0 0 0), VectorKey 10 (Vec3 10 0 0)],
       mRotationKeys = []\<rparr> 5 = Inr (Vec3 10 0 0)
   \<and> getPosition \<lparr>mNodeName = ''bone'',
       mPositionKeys = [VectorKey 0 (Vec3 0 0 0), VectorKey 10 (Vec3 10 0 0)],
       mRotationKeys = []\<rparr> 15 = Inl ArrayOutOfBounds"
  by (simp add: getPosition_def getPosition_scan_step ebind_def array_at_def)

subsection \<open>Skin influences\<close>

text \<open>
  As long as no write leaves the arrays, \<^verbatim>\<open>fillSkinInfo\<close> keeps every \<^verbatim>\<open>SkinInfo\<close>
  in order: a vertex that got \<open>n \<le> 4\<close> influences has its counter at \<open>n\<close> and
  zeros in the slots from \<open>n\<close> on.
\<close>

lemma skin_ok_new: "skin_ok SkinInfo_new"
  by (simp add: skin_ok_def SkinInfo_new_def)

lemma drop_Suc_update:
  "drop n xs = replicate (length xs - n) z \<Longrightarrow> n < length xs \<Longrightarrow>
     drop (Suc n) (xs[n := v]) = replicate (length xs - Suc n) z"
proof -
  assume a: "drop n xs = replicate (length xs - n) z" and n: "n < length xs"
  have "drop (Suc n) (xs[n := v]) = drop (Suc n) xs" by simp
  also have "\<dots> = tl (drop n xs)" by (simp add: drop_Suc tl_drop)
  also have "\<dots> = tl (replicate (length xs - n) z)" by (simp only: a)
  also have "\<dots> = replicate (length xs - Suc n) z" by (cases "length xs - n") simp_all
  finally show ?thesis .
qed

lemma add_influence_ok:
  assumes "add_influence info w b = Inr info'" and "skin_ok info"
  shows "skin_ok info'"
proof -
  from assms(1) have i: "0 \<le> index info" "index info < 4"
    and info': "info' = info\<lparr>weights := (weights info)[nat (index info) := w],
                     bone_indices := (bone_indices info)[nat (index info) := b],
                     index := index info + 1\<rparr>"
    by (auto simp: add_influence_def split: if_splits)
  from i have n: "nat (index info + 1) = Suc (nat (index info))" by simp
  from assms(2) i have
    "drop (Suc (nat (index info))) ((weights info)[nat (index info) := w])
       = replicate (length (weights info) - Suc (nat (index info))) 0"
    "drop (Suc (nat (index info))) ((bone_indices info)[nat (index info) := b])
       = replicate (length (bone_indices info) - Suc (nat (index info))) 0"
    by (intro drop_Suc_update; simp add: skin_ok_def)+
  with assms(2) i show ?thesis
    by (simp add: info' skin_ok_def n)
qed

lemma fill_weights_ok:
  "fill_weights infos offset b ws = Inr infos' \<Longrightarrow> list_all skin_ok infos \<Longrightarrow>
     list_all skin_ok infos' \<and> length infos' = length infos"
proof (induction ws arbitrary: infos)
  case Nil
  then show ?case by simp
next
  case (Cons w ws)
  let ?i = "sint (offset + mVertexId w)"
  from Cons.prems(1) obtain info info' where
    at: "qvector_at infos ?i = Inr info"
    and add: "add_influence info (mWeight w) b = Inr info'"
    and rest: "fill_weights (infos[nat ?i := info']) offset b ws = Inr infos'"
    by (auto simp: ebind_Inr_iff)
  from at have i: "nat ?i < length infos" "info = infos ! nat ?i"
    by (auto simp: qvector_at_def split: if_splits)
  with Cons.prems(2) have "skin_ok info" by (simp add: list_all_length)
  from add_influence_ok [OF add this] Cons.prems(2) i(1)
  have "list_all skin_ok (infos[nat ?i := info'])"
    by (auto simp: list_all_length nth_list_update)
  from Cons.IH [OF rest this] show ?case by simp
qed

lemma fill_bones_ok:
  "fill_bones infos names offset bones = Inr infos' \<Longrightarrow> list_all skin_ok infos \<Longrightarrow>
     list_all skin_ok infos' \<and> length infos' = length infos"
proof (induction bones arbitrary: infos)
  case Nil
  then show ?case by simp
next
  case (Cons bone bones)
  from Cons.prems(1) obtain infos1 where
    w: "fill_weights infos offset (indexOf names (mName_bone bone)) (mWeights bone) = Inr infos1"
    and rest: "fill_bones infos1 names offset bones = Inr infos'"
    by (auto simp: ebind_Inr_iff)
  from fill_weights_ok [OF w Cons.prems(2)] Cons.IH [OF rest] show ?case by simp
qed

lemma fill_meshes_ok:
  "fill_meshes infos names offset meshes = Inr infos' \<Longrightarrow> list_all skin_ok infos \<Longrightarrow>
     list_all skin_ok infos' \<and> length infos' = length infos"
proof (induction meshes arbitrary: infos offset)
  case Nil
  then show ?case by simp
next
  case (Cons mesh meshes)
  from Cons.prems(1) obtain infos1 where
    b: "fill_bones infos names offset (mBones mesh) = Inr infos1"
    and rest: "fill_meshes infos1 names (offset + mNumVertices mesh) meshes = Inr infos'"
    by (auto simp: ebind_Inr_iff)
  from fill_bones_ok [OF b Cons.prems(2)] Cons.IH [OF rest] show ?case by simp
qed

lemma fillSkinInfo_ok:
  assumes "fillSkinInfo scene vertices_count = Inr infos"
  shows "list_all skin_ok infos \<and> int (length infos) = vertices_count"
proof -
  from assms have n: "0 \<le> vertices_count"
    and f: "fill_meshes (replicate (nat vertices_count) SkinInfo_new) (getBoneNames scene) 0
              (mMeshes scene) = Inr infos"
    by (auto simp: fillSkinInfo_def split: if_splits)
  have "list_all skin_ok (replicate (nat vertices_count) SkinInfo_new)"
    by (simp add: list_all_length skin_ok_new)
  from fill_meshes_ok [OF f this] n show ?thesis by simp
qed

lemma skin_slots_beyond_count_zero:
  assumes "fillSkinInfo scene vertices_count = Inr infos" and "info \<in> set infos"
    and "nat (index info) \<le> k" and "k < 4"
  shows "index info \<le> 4 \<and> weights info ! k = 0 \<and> bone_indices info ! k = 0"
proof -
  from fillSkinInfo_ok [OF assms(1)] assms(2) have ok: "skin_ok info"
    by (auto simp: list_all_iff)
  let ?n = "nat (index info)"
  from ok have n: "?n \<le> length (weights info)" "?n \<le> length (bone_indices info)"
    by (simp_all add: skin_ok_def nat_le_iff)
  from assms(3) have k: "?n + (k - ?n) = k" by simp
  have "weights info ! k = drop ?n (weights info) ! (k - ?n)"
    using nth_drop [OF n(1), of "k - ?n"] by (simp only: k)
  moreover have "bone_indices info ! k = drop ?n (bone_indices info) ! (k - ?n)"
    using nth_drop [OF n(2), of "k - ?n"] by (simp only: k)
  moreover from ok have "drop ?n (weights info) = replicate (4 - ?n) 0"
    "drop ?n (bone_indices info) = replicate (4 - ?n) 0" "index info \<le> 4"
    by (simp_all add: skin_ok_def)
  moreover from assms(3,4) have "k - ?n < 4 - ?n" by simp
  ultimately show ?thesis by simp
qed

lemma five_bone_skin: "fillSkinInfo five_bone_scene 1 = Inl ArrayOutOfBounds"
  by (simp add: fillSkinInfo_def five_bone_scene_def getBoneNames_def ebind_def qvector_at_def
      add_influence_def SkinInfo_new_def indexOf_def mNumVertices_def)

lemma five_bone_geometry: "writeGeometry five_bone_scene = Inl ArrayOutOfBounds"
proof -
  have size: "getVertexSize five_bone_scene = 56"
    by (simp add: getVertexSize_def five_bone_scene_def SKINNED_VERTEX_SIZE_def)
  have meshes: "write_indices (mMeshes five_bone_scene) = Inr []"
    "geometry_totals 56 (mMeshes five_bone_scene) = (0, 56)"
    by (simp_all add: write_indices_def geometry_totals_def five_bone_scene_def ebind_def
        mNumFaces_def mNumVertices_def)
  show ?thesis
    by (simp add: writeGeometry_def geometry_vertices_def size meshes c_div_def five_bone_skin
        ebind_def)
qed

text \<open>
  C2. On a mesh of one vertex with five bones, each with a weight for that vertex,
  the fifth pass of the inner loop finds \<^verbatim>\<open>info.index = 4\<close> and writes
  \<^verbatim>\<open>info.weights[4]\<close> and \<^verbatim>\<open>info.bone_indices[4]\<close>: the influence is not dropped,
  the write leaves the arrays. \<^verbatim>\<open>writeGeometry\<close> reaches this with the vertex
  count 1 that it computes.
\<close>

theorem fillSkinInfo_fifth_influence_out_of_bounds:
  "fillSkinInfo five_bone_scene 1 = Inl ArrayOutOfBounds
   \<and> c_div (sint (snd (geometry_totals (getVertexSize five_bone_scene)
                           (mMeshes five_bone_scene))))
        (getVertexSize five_bone_scene) = 1
   \<and> writeGeometry five_bone_scene = Inl ArrayOutOfBounds"
  by (simp add: five_bone_skin five_bone_geometry)
     (simp add: getVertexSize_def five_bone_scene_def SKINNED_VERTEX_SIZE_def geometry_totals_def
        mNumFaces_def mNumVertices_def c_div_def)

subsection \<open>The submesh table\<close>

lemma writeMeshes_loop_length:
  "writeMeshes_loop materials vertex_size meshes a b = Inr ds \<Longrightarrow> length ds = length meshes"
  by (induction meshes arbitrary: a b ds) (auto simp: ebind_Inr_iff Let_def)

lemma writeMeshes_loop_nth:
  "writeMeshes_loop materials vertex_size meshes a b = Inr ds \<Longrightarrow> i < length meshes \<Longrightarrow>
     attribute_array_offset (ds ! i)
       = a + sum_list (map (\<lambda>m. mNumVertices m * word_of_int vertex_size) (take i meshes))
   \<and> attribute_array_size (ds ! i) = mNumVertices (meshes ! i) * word_of_int vertex_size
   \<and> indices_offset (ds ! i) = b + sum_list (map (\<lambda>m. mNumFaces m * 3) (take i meshes))
   \<and> mesh_tri_count (ds ! i) = mNumFaces (meshes ! i)
   \<and> attribute_count (ds ! i) = (if vertex_size = SKINNED_VERTEX_SIZE then 6 else 4)
   \<and> attributes (ds ! i) = vertex_attributes vertex_size"
proof (induction meshes arbitrary: a b ds i)
  case Nil
  then show ?case by simp
next
  case (Cons mesh rest)
  from Cons.prems(1) obtain material tl where
    mat: "array_at materials (mMaterialIndex mesh) = Inr material"
    and tl: "writeMeshes_loop materials vertex_size rest
               (a + mNumVertices mesh * word_of_int vertex_size) (b + mNumFaces mesh * 3) = Inr tl"
    and ds: "ds = \<lparr>material_name_length = of_nat (length (AI_MATKEY_NAME material)),
                material_name = AI_MATKEY_NAME material,
                attribute_array_offset = a,
                attribute_array_size = mNumVertices mesh * word_of_int vertex_size,
                indices_offset = b,
                mesh_tri_count = mNumFaces mesh,
                mesh_name_length = of_nat (length (AI_MATKEY_NAME material)),
                mesh_name = AI_MATKEY_NAME material,
                attribute_count = (if vertex_size = SKINNED_VERTEX_SIZE then 6 else 4),
                attributes = vertex_attributes vertex_size\<rparr> # tl"
    by (auto simp: ebind_Inr_iff Let_def)
  show ?case
  proof (cases i)
    case 0
    then show ?thesis by (simp add: ds)
  next
    case (Suc k)
    with Cons.prems(2) have k: "k < length rest" by simp
    from Cons.IH [OF tl k] show ?thesis
      by (simp add: ds Suc add.assoc)
  qed
qed









lemma writeMeshes_loop_member:
  assumes "writeMeshes_loop materials vertex_size meshes a b = Inr ds" and "d \<in> set ds"
  shows "attribute_count d = (if vertex_size = SKINNED_VERTEX_SIZE then 6 else 4)
       \<and> attributes d = vertex_attributes vertex_size"
proof -
  from assms(2) obtain i where i: "i < length ds" and d: "d = ds ! i"
    by (auto simp: in_set_conv_nth)
  from i writeMeshes_loop_length [OF assms(1)] have "i < length meshes" by simp
  from writeMeshes_loop_nth [OF assms(1) this] d show ?thesis by simp
qed

lemma quad_submeshes:
  "submeshes quad_scene =
     Inr [\<lparr>material_name_length = 3, material_name = ''Mat'',
            attribute_array_offset = 0, attribute_array_size = 96,
            indices_offset = 0, mesh_tri_count = 2, mesh_name_length = 3,
            mesh_name = ''Mat'', attribute_count = 4,
            attributes = [(''in_position'', POSITION), (''in_normal'', BYTE4),
                          (''in_tangents'', BYTE4), (''in_tex_coords'', SHORT2)]\<rparr>]"
  by (simp add: submeshes_def quad_scene_def quad_mesh_def getVertexSize_def
      array_at_def ebind_def mNumVertices_def mNumFaces_def RIGID_VERTEX_SIZE_def
      SKINNED_VERTEX_SIZE_def vertex_attributes_def)

lemma arm_submeshes:
  "submeshes arm_scene =
     Inr [\<lparr>material_name_length = 3, material_name = ''Mat'',
            attribute_array_offset = 0, attribute_array_size = 224,
            indices_offset = 0, mesh_tri_count = 2, mesh_name_length = 3,
            mesh_name = ''Mat'', attribute_count = 6,
            attributes = [(''in_weights'', FLOAT4), (''in_indices'', INT4),
                          (''in_position'', POSITION), (''in_normal'', BYTE4),
                          (''in_tangents'', BYTE4), (''in_tex_coords'', SHORT2)]\<rparr>]"
  by (simp add: submeshes_def arm_scene_def quad_mesh_def getVertexSize_def
      array_at_def ebind_def mNumVertices_def mNumFaces_def RIGID_VERTEX_SIZE_def
      SKINNED_VERTEX_SIZE_def vertex_attributes_def)

lemma quad_geometry: "\<exists>g. writeGeometry quad_scene = Inr g"
proof -
  have "\<not> isl (writeGeometry quad_scene)"
    by code_simp
  then show ?thesis
    by (rule not_isl_Inr)
qed

text \<open>
  The stride that is selected and the attribute descriptors that a submesh
  descriptor writes after its first eight values, by the children of the root. An
  attribute descriptor is the length of the name, the name and the number of the
  type: \<open>FLOAT4\<close> is 4, \<open>INT4\<close> is 8, \<open>POSITION\<close> is 0, \<open>BYTE4\<close> is 11 and
  \<open>SHORT2\<close> is 9.
\<close>

lemma submesh_descriptor_layout:
  assumes "submeshes scene = Inr ds" and "d \<in> set ds"
  shows "if mChildren (mRootNode scene) \<noteq> []
         then getVertexSize scene = 56
            \<and> drop 8 (write_submesh d)
                = [I32 6,
                   U32 10, Bytes ''in_weights'', U32 4,
                   U32 10, Bytes ''in_indices'', U32 8,
                   U32 11, Bytes ''in_position'', U32 0,
                   U32 9, Bytes ''in_normal'', U32 11,
                   U32 11, Bytes ''in_tangents'', U32 11,
                   U32 13, Bytes ''in_tex_coords'', U32 9]
         else getVertexSize scene = 24
            \<and> drop 8 (write_submesh d)
                = [I32 4,
                   U32 11, Bytes ''in_position'', U32 0,
                   U32 9, Bytes ''in_normal'', U32 11,
                   U32 11, Bytes ''in_tangents'', U32 11,
                   U32 13, Bytes ''in_tex_coords'', U32 9]"
proof -
  from assms(1) have loop:
    "writeMeshes_loop (mMaterials scene) (getVertexSize scene) (mMeshes scene) 0 0 = Inr ds"
    by (simp add: submeshes_def)
  from writeMeshes_loop_member [OF loop assms(2)] show ?thesis
    by (simp add: getVertexSize_def vertex_attributes_def SKINNED_VERTEX_SIZE_def
        RIGID_VERTEX_SIZE_def write_submesh_def writeAttribute_def)
qed

text \<open>
  C6. The layout of a vertex depends on the root node alone: with one or more
  children the vertex size is 56 bytes and every descriptor of the submesh table
  lists the six attributes, without children it is 24 bytes and the last four are
  listed (lemma \<open>submesh_descriptor_layout\<close>). The vertices that the geometry block
  writes do not follow the layout without children. On the quad, whose root has no
  children, the vertex size is 24, the descriptor announces 96 bytes of vertices
  and lists \<open>in_position\<close> (type 0), \<open>in_normal\<close> (type 11), \<open>in_tangents\<close> (type 11) and
  \<open>in_tex_coords\<close> (type 9), and the geometry block writes 96 as the size of the
  vertices; yet each of the four vertices is written as four weights, four bone
  indices, the position, the normal, the tangent and the texture coordinate: 56
  bytes a vertex and 224 bytes in all. The stride of the written vertices is 56
  bytes where the layout says 24.
\<close>

theorem rigid_scene_writes_skinned_vertices:
  "mChildren (mRootNode quad_scene) = []
   \<and> getVertexSize quad_scene = 24
   \<and> writeMeshes quad_scene
       = Inr [I32 1, I32 3, Bytes ''Mat'', I32 0, I32 96, I32 0, I32 2, I32 3, Bytes ''Mat'',
              I32 4,
              U32 11, Bytes ''in_position'', U32 0,
              U32 9, Bytes ''in_normal'', U32 11,
              U32 11, Bytes ''in_tangents'', U32 11,
              U32 13, Bytes ''in_tex_coords'', U32 9]
   \<and> writeGeometry quad_scene
       = Inr ([I32 6, I32 0, I32 1, I32 2, I32 0, I32 2, I32 3, I32 96]
              @ [F32 (Finite 0), F32 (Finite 0), F32 (Finite 0), F32 (Finite 0),
                 I32 0, I32 0, I32 0, I32 0,
                 F32 (Finite 0), F32 (Finite 0), F32 (Finite 0),
                 U8 0, U8 0, U8 127, U8 0, U8 127, U8 0, U8 0, U8 0, I16 0, I16 0]
              @ [F32 (Finite 0), F32 (Finite 0), F32 (Finite 0), F32 (Finite 0),
                 I32 0, I32 0, I32 0, I32 0,
                 F32 (Finite 1), F32 (Finite 0), F32 (Finite 0),
                 U8 0, U8 0, U8 127, U8 0, U8 127, U8 0, U8 0, U8 0, I16 2048, I16 0]
              @ [F32 (Finite 0), F32 (Finite 0), F32 (Finite 0), F32 (Finite 0),
                 I32 0, I32 0, I32 0, I32 0,
                 F32 (Finite 1), F32 (Finite 0), F32 (Finite 1),
                 U8 0, U8 0, U8 127, U8 0, U8 127, U8 0, U8 0, U8 0, I16 2048, I16 2048]
              @ [F32 (Finite 0), F32 (Finite 0), F32 (Finite 0), F32 (Finite 0),
                 I32 0, I32 0, I32 0, I32 0,
                 F32 (Finite 0), F32 (Finite 0), F32 (Finite 1),
                 U8 0, U8 0, U8 127, U8 0, U8 127, U8 0, U8 0, U8 0, I16 0, I16 2048])
   \<and> sum_list (map item_size (drop 8 (projr (writeGeometry quad_scene)))) = 224"
  by code_simp


subsection \<open>The geometry block\<close>



lemma to_int8_sint: "to_int8 r = Inr b \<Longrightarrow> sint b = float_trunc r"
  by (auto simp: to_int8_def signed_of_int signed_take_bit_int_eq_self split: if_splits)

lemma geometry_vertex_bytes:
  assumes "geometry_vertex skin_infos mesh ii j = Inr v"
  shows "j < length (mNormals mesh) \<and> j < length (mTangents mesh)
       \<and> map sint (byte_normal v) = packed_byte4 (mNormals mesh ! j)
       \<and> map sint (byte_tangent v) = packed_byte4 (mTangents mesh ! j)"
  using assms
  by (auto simp: geometry_vertex_def ebind_Inr_iff array_at_def packed_byte4_def to_int8_sint
      split: if_splits)

lemma mesh_vertices_bytes:
  "mesh_vertices skin_infos mesh ii js = Inr vs \<Longrightarrow>
     (\<forall>j\<in>set js. j < length (mNormals mesh) \<and> j < length (mTangents mesh))
   \<and> map (\<lambda>v. map sint (byte_normal v)) vs = map (\<lambda>j. packed_byte4 (mNormals mesh ! j)) js
   \<and> map (\<lambda>v. map sint (byte_tangent v)) vs = map (\<lambda>j. packed_byte4 (mTangents mesh ! j)) js"
proof (induction js arbitrary: ii vs)
  case Nil
  then show ?case by simp
next
  case (Cons j js)
  from Cons.prems obtain v ws where v: "geometry_vertex skin_infos mesh ii j = Inr v"
    and ws: "mesh_vertices skin_infos mesh (ii + 1) js = Inr ws" and vs: "vs = v # ws"
    by (auto simp: ebind_Inr_iff)
  from geometry_vertex_bytes [OF v] Cons.IH [OF ws] show ?case
    by (simp add: vs)
qed

lemma map_nth_upt_take:
  "n \<le> length xs \<Longrightarrow> map (\<lambda>j. f (xs ! j)) [0..<n] = map f (take n xs)"
  by (rule nth_equalityI) simp_all

lemma mesh_vertices_upt_bytes:
  assumes "mesh_vertices skin_infos mesh ii [0..<n] = Inr vs"
  shows "map (\<lambda>v. map sint (byte_normal v)) vs = map packed_byte4 (take n (mNormals mesh))
       \<and> map (\<lambda>v. map sint (byte_tangent v)) vs = map packed_byte4 (take n (mTangents mesh))"
proof (cases n)
  case 0
  with assms show ?thesis by simp
next
  case (Suc k)
  from mesh_vertices_bytes [OF assms] have
    "k < length (mNormals mesh)" "k < length (mTangents mesh)"
    by (simp_all add: Suc)
  then have "n \<le> length (mNormals mesh)" "n \<le> length (mTangents mesh)"
    by (simp_all add: Suc)
  with mesh_vertices_bytes [OF assms] show ?thesis
    by (simp add: map_nth_upt_take)
qed

lemma scene_vertices_bytes:
  "scene_vertices skin_infos ii meshes = Inr vs \<Longrightarrow>
     map (\<lambda>v. map sint (byte_normal v)) vs
       = map packed_byte4 (concat (map (\<lambda>mesh. take (length (mVertices mesh)) (mNormals mesh)) meshes))
   \<and> map (\<lambda>v. map sint (byte_tangent v)) vs
       = map packed_byte4 (concat (map (\<lambda>mesh. take (length (mVertices mesh)) (mTangents mesh)) meshes))"
proof (induction meshes arbitrary: ii vs)
  case Nil
  then show ?case by simp
next
  case (Cons mesh rest)
  from Cons.prems obtain us ws where
    us: "mesh_vertices skin_infos mesh ii [0..<length (mVertices mesh)] = Inr us"
    and ws: "scene_vertices skin_infos (ii + int (length (mVertices mesh))) rest = Inr ws"
    and vs: "vs = us @ ws"
    by (auto simp: ebind_Inr_iff)
  from mesh_vertices_upt_bytes [OF us] Cons.IH [OF ws] show ?case
    by (simp add: vs)
qed

text \<open>
  The values of a written vertex: 21 values of 56 bytes, the bytes of the normal
  after the first eleven, the bytes of the tangent after them.
\<close>

lemma geometry_vertex_size:
  assumes "geometry_vertex skin_infos mesh ii j = Inr v" and "list_all skin_ok skin_infos"
  shows "sum_list (map item_size (write_vertex v)) = 56
       \<and> length (write_vertex v) = 21
       \<and> take 4 (drop 11 (write_vertex v)) = map U8 (byte_normal v)
       \<and> take 4 (drop 15 (write_vertex v)) = map U8 (byte_tangent v)"
proof -
  from assms(1) obtain info where at: "qvector_at skin_infos ii = Inr info"
    and w: "skin_weights v = weights info" "skin_bone_indices v = bone_indices info"
    and l: "length (byte_normal v) = 4" "length (byte_tangent v) = 4" "length (short_uv v) = 2"
    by (auto simp: geometry_vertex_def ebind_Inr_iff)
  from at assms(2) have "skin_ok info"
    by (auto simp: qvector_at_def list_all_length split: if_splits)
  then have "length (skin_weights v) = 4" "length (skin_bone_indices v) = 4"
    by (simp_all add: w skin_ok_def)
  with l show ?thesis
    by (simp add: write_vertex_def o_def sum_list_triv)
qed

lemma mesh_vertices_size:
  "mesh_vertices skin_infos mesh ii js = Inr vs \<Longrightarrow> list_all skin_ok skin_infos \<Longrightarrow>
     length vs = length js
   \<and> (\<forall>v\<in>set vs. sum_list (map item_size (write_vertex v)) = 56
                \<and> length (write_vertex v) = 21
                \<and> take 4 (drop 11 (write_vertex v)) = map U8 (byte_normal v)
                \<and> take 4 (drop 15 (write_vertex v)) = map U8 (byte_tangent v))"
proof (induction js arbitrary: ii vs)
  case Nil
  then show ?case by simp
next
  case (Cons j js)
  from Cons.prems(1) obtain v ws where v: "geometry_vertex skin_infos mesh ii j = Inr v"
    and ws: "mesh_vertices skin_infos mesh (ii + 1) js = Inr ws" and vs: "vs = v # ws"
    by (auto simp: ebind_Inr_iff)
  from geometry_vertex_size [OF v Cons.prems(2)] Cons.IH [OF ws Cons.prems(2)] show ?case
    by (simp add: vs)
qed

lemma scene_vertices_size:
  "scene_vertices skin_infos ii meshes = Inr vs \<Longrightarrow> list_all skin_ok skin_infos \<Longrightarrow>
     length vs = sum_list (map (\<lambda>mesh. length (mVertices mesh)) meshes)
   \<and> (\<forall>v\<in>set vs. sum_list (map item_size (write_vertex v)) = 56
                \<and> length (write_vertex v) = 21
                \<and> take 4 (drop 11 (write_vertex v)) = map U8 (byte_normal v)
                \<and> take 4 (drop 15 (write_vertex v)) = map U8 (byte_tangent v))"
proof (induction meshes arbitrary: ii vs)
  case Nil
  then show ?case by simp
next
  case (Cons mesh rest)
  from Cons.prems(1) obtain us ws where
    us: "mesh_vertices skin_infos mesh ii [0..<length (mVertices mesh)] = Inr us"
    and ws: "scene_vertices skin_infos (ii + int (length (mVertices mesh))) rest = Inr ws"
    and vs: "vs = us @ ws"
    by (auto simp: ebind_Inr_iff)
  from mesh_vertices_size [OF us Cons.prems(2)] Cons.IH [OF ws Cons.prems(2)] show ?case
    by (auto simp: vs)
qed

lemma write_face_length: "write_face f = Inr xs \<Longrightarrow> length xs = 3"
  by (auto simp: write_face_def ebind_Inr_iff)

lemma emap_write_face_length:
  "emap write_face fs = Inr blocks \<Longrightarrow> length (concat blocks) = 3 * length fs"
proof (induction fs arbitrary: blocks)
  case Nil
  then show ?case by simp
next
  case (Cons f fs)
  from Cons.prems obtain b bs where b: "write_face f = Inr b"
    and bs: "emap write_face fs = Inr bs" and blocks: "blocks = b # bs"
    by (auto simp: ebind_Inr_iff)
  from write_face_length [OF b] Cons.IH [OF bs] show ?case
    by (simp add: blocks)
qed

lemma emap_faces_length:
  "emap (\<lambda>mesh. emap write_face (mFaces mesh)) meshes = Inr blocks \<Longrightarrow>
     length (concat (concat blocks)) = 3 * sum_list (map (\<lambda>mesh. length (mFaces mesh)) meshes)"
proof (induction meshes arbitrary: blocks)
  case Nil
  then show ?case by simp
next
  case (Cons mesh rest)
  from Cons.prems obtain b bs where b: "emap write_face (mFaces mesh) = Inr b"
    and bs: "emap (\<lambda>mesh. emap write_face (mFaces mesh)) rest = Inr bs"
    and blocks: "blocks = b # bs"
    by (auto simp: ebind_Inr_iff)
  from emap_write_face_length [OF b] Cons.IH [OF bs] show ?case
    by (simp add: blocks)
qed

lemma write_indices_length:
  "write_indices meshes = Inr indices \<Longrightarrow>
     length indices = 3 * sum_list (map (\<lambda>mesh. length (mFaces mesh)) meshes)"
  by (auto simp: write_indices_def ebind_Inr_iff dest: emap_faces_length)

lemma concat_block:
  "\<forall>x\<in>set xs. length x = n \<Longrightarrow> k < length xs \<Longrightarrow> take n (drop (n * k) (concat xs)) = xs ! k"
proof (induction xs arbitrary: k)
  case Nil
  then show ?case by simp
next
  case (Cons x xs)
  show ?case
  proof (cases k)
    case 0
    with Cons.prems show ?thesis by simp
  next
    case (Suc j)
    with Cons.prems have "take n (drop (n * j) (concat xs)) = xs ! j"
      by (intro Cons.IH) simp_all
    with Cons.prems show ?thesis
      by (simp add: Suc)
  qed
qed

lemma sum_list_concat_const:
  "(\<forall>x\<in>set xs. sum_list (map g (f x)) = c) \<Longrightarrow>
     sum_list (map g (concat (map f xs))) = c * length xs"
  by (induction xs) simp_all

lemma length_concat_const:
  "(\<forall>x\<in>set xs. length (f x) = c) \<Longrightarrow> length (concat (map f xs)) = c * length xs"
  by (induction xs) simp_all

lemma geometry_vertices_written:
  assumes "geometry_vertices scene = Inr vs"
  shows "length vs = scene_vertex_count scene
       \<and> (\<forall>v\<in>set vs. sum_list (map item_size (write_vertex v)) = 56
                    \<and> length (write_vertex v) = 21
                    \<and> take 4 (drop 11 (write_vertex v)) = map U8 (byte_normal v)
                    \<and> take 4 (drop 15 (write_vertex v)) = map U8 (byte_tangent v))
       \<and> map (\<lambda>v. map sint (byte_normal v)) vs = map packed_byte4 (scene_normals scene)
       \<and> map (\<lambda>v. map sint (byte_tangent v)) vs = map packed_byte4 (scene_tangents scene)"
proof -
  from assms obtain skin_infos count where
    f: "fillSkinInfo scene count = Inr skin_infos"
    and sv: "scene_vertices skin_infos 0 (mMeshes scene) = Inr vs"
    by (auto simp: geometry_vertices_def ebind_Inr_iff)
  from fillSkinInfo_ok [OF f] have "list_all skin_ok skin_infos" by simp
  from scene_vertices_size [OF sv this] scene_vertices_bytes [OF sv] show ?thesis
    by (simp add: scene_vertex_count_def scene_normals_def scene_tangents_def)
qed

lemma byte_value_U8: "map byte_value (map U8 bs) = map Some (map sint bs)"
  by (simp add: o_def)

text \<open>
  C7. For every vertex \<open>k\<close> of the scene, the four bytes of the normal that the
  geometry block writes (the values 12 to 15 of the 21 values of the vertex), read
  as signed bytes, are \<open>(x*127, z*127, y*127, 0)\<close> of the source normal, each product
  a \<^verbatim>\<open>float\<close> product that is cut to an integer: the second byte comes from \<open>z\<close>
  and the third from \<open>y\<close>. The four bytes of the tangent follow and are packed in
  the same way. The geometry block holds nothing but the two sizes, the indices and
  the 21 values of every vertex. The normal \<open>(0,1,0)\<close> packs to \<open>(0,0,127,0)\<close>.
\<close>

theorem normal_packing:
  assumes "writeGeometry scene = Inr geometry" and "k < scene_vertex_count scene"
  shows "length geometry = 2 + 3 * scene_faces scene + 21 * scene_vertex_count scene
       \<and> map byte_value (take 4 (drop 11 (vertex_items scene geometry k)))
           = map Some (packed_byte4 (scene_normals scene ! k))
       \<and> map byte_value (take 4 (drop 15 (vertex_items scene geometry k)))
           = map Some (packed_byte4 (scene_tangents scene ! k))
       \<and> packed_byte4 (Vec3 0 1 0) = [0, 0, 127, 0]"
proof -
  from assms(1) obtain indices vs where
    ind: "write_indices (mMeshes scene) = Inr indices"
    and vs: "geometry_vertices scene = Inr vs"
    and g: "geometry = I32 (fst (geometry_totals (getVertexSize scene) (mMeshes scene))) # indices
                       @ I32 (snd (geometry_totals (getVertexSize scene) (mMeshes scene)))
                         # concat (map write_vertex vs)"
    by (auto simp: writeGeometry_def Let_def ebind_Inr_iff)
  note w = geometry_vertices_written [OF vs]
  from write_indices_length [OF ind] have li: "length indices = 3 * scene_faces scene"
    by (simp add: scene_faces_def)
  from w assms(2) have k: "k < length vs" by simp
  from w have all21: "\<forall>x\<in>set (map write_vertex vs). length x = 21" by simp
  from w have "length (concat (map write_vertex vs)) = 21 * length vs"
    by (intro length_concat_const) simp
  with w li have len: "length geometry = 2 + 3 * scene_faces scene + 21 * scene_vertex_count scene"
    by (simp add: g)
  have "vertex_items scene geometry k = take 21 (drop (21 * k) (concat (map write_vertex vs)))"
    by (simp add: vertex_items_def g li)
  also from concat_block [OF all21] k have "\<dots> = write_vertex (vs ! k)"
    by simp
  finally have items: "vertex_items scene geometry k = write_vertex (vs ! k)" .
  from k have mem: "vs ! k \<in> set vs" by simp
  from w k have "map (\<lambda>v. map sint (byte_normal v)) vs ! k = map packed_byte4 (scene_normals scene) ! k"
    by simp
  moreover from w have "length (scene_normals scene) = length vs"
    by (metis length_map)
  ultimately have n: "map sint (byte_normal (vs ! k)) = packed_byte4 (scene_normals scene ! k)"
    using k by simp
  from w k have "map (\<lambda>v. map sint (byte_tangent v)) vs ! k = map packed_byte4 (scene_tangents scene) ! k"
    by simp
  moreover from w have "length (scene_tangents scene) = length vs"
    by (metis length_map)
  ultimately have t: "map sint (byte_tangent (vs ! k)) = packed_byte4 (scene_tangents scene ! k)"
    using k by simp
  from w mem have
    "take 4 (drop 11 (write_vertex (vs ! k))) = map U8 (byte_normal (vs ! k))"
    "take 4 (drop 15 (write_vertex (vs ! k))) = map U8 (byte_tangent (vs ! k))"
    by simp_all
  with n t have
    "map byte_value (take 4 (drop 11 (vertex_items scene geometry k)))
       = map Some (packed_byte4 (scene_normals scene ! k))"
    "map byte_value (take 4 (drop 15 (vertex_items scene geometry k)))
       = map Some (packed_byte4 (scene_tangents scene ! k))"
    by (simp_all only: items byte_value_U8)
  moreover have "packed_byte4 (Vec3 0 1 0) = [0, 0, 127, 0]"
    by (simp add: packed_byte4_def float_mul_exact float_trunc_def)
  ultimately show ?thesis
    using len by simp
qed

lemma tilted_geometry: "\<exists>g. writeGeometry tilted_scene = Inr g"
proof -
  have "\<not> isl (writeGeometry tilted_scene)"
    by code_simp
  then show ?thesis
    by (rule not_isl_Inr)
qed

lemma tilted_packed:
  "packed_byte4 (Vec3 (5033165 / 8388608) 0 (13421773 / 16777216)) = [76, 101, 0, 0]"
  "packed_byte4 (Vec3 (13421773 / 16777216) 0 (- (5033165 / 8388608))) = [101, - 76, 0, 0]"
  "packed_byte4 (Vec3 (2113665 / 268435456) 0 (- 1)) = [1, - 127, 0, 0]"
  "packed_byte4 (Vec3 1 0 0) = [127, 0, 0, 0]"
  by code_simp+

theorem normal_packing_witness:
  "writeGeometry tilted_scene = Inr (projr (writeGeometry tilted_scene))
   \<and> scene_vertex_count tilted_scene = 4
   \<and> scene_faces tilted_scene = 2
   \<and> length (projr (writeGeometry tilted_scene)) = 92
   \<and> scene_normals tilted_scene ! 0 = Vec3 (5033165 / 8388608) 0 (13421773 / 16777216)
   \<and> scene_tangents tilted_scene ! 0 = Vec3 (13421773 / 16777216) 0 (- (5033165 / 8388608))
   \<and> map byte_value (take 4 (drop 11 (vertex_items tilted_scene
                                         (projr (writeGeometry tilted_scene)) 0)))
       = [Some 76, Some 101, Some 0, Some 0]
   \<and> map byte_value (take 4 (drop 15 (vertex_items tilted_scene
                                         (projr (writeGeometry tilted_scene)) 0)))
       = [Some 101, Some (- 76), Some 0, Some 0]
   \<and> scene_normals tilted_scene ! 1 = Vec3 (2113665 / 268435456) 0 (- 1)
   \<and> scene_tangents tilted_scene ! 1 = Vec3 1 0 0
   \<and> map byte_value (take 4 (drop 11 (vertex_items tilted_scene
                                         (projr (writeGeometry tilted_scene)) 1)))
       = [Some 1, Some (- 127), Some 0, Some 0]
   \<and> map byte_value (take 4 (drop 15 (vertex_items tilted_scene
                                         (projr (writeGeometry tilted_scene)) 1)))
       = [Some 127, Some 0, Some 0, Some 0]"
proof -
  have h: "writeGeometry tilted_scene = Inr (projr (writeGeometry tilted_scene))"
    by (rule Inr_projr [OF tilted_geometry])
  have c: "scene_vertex_count tilted_scene = 4" "scene_faces tilted_scene = 2"
    by (simp_all add: scene_vertex_count_def scene_faces_def tilted_scene_def tilted_mesh_def
        quad_scene_def quad_mesh_def)
  have n: "scene_normals tilted_scene ! 0 = Vec3 (5033165 / 8388608) 0 (13421773 / 16777216)"
    "scene_tangents tilted_scene ! 0 = Vec3 (13421773 / 16777216) 0 (- (5033165 / 8388608))"
    "scene_normals tilted_scene ! 1 = Vec3 (2113665 / 268435456) 0 (- 1)"
    "scene_tangents tilted_scene ! 1 = Vec3 1 0 0"
    by (simp_all add: scene_normals_def scene_tangents_def tilted_scene_def tilted_mesh_def
        quad_scene_def quad_mesh_def)
  have k0: "0 < scene_vertex_count tilted_scene" and k1: "1 < scene_vertex_count tilted_scene"
    by (simp_all add: c)
  from normal_packing [OF h k0] normal_packing [OF h k1] h c n show ?thesis
    by (simp add: tilted_packed)
qed

lemma quad_vertices: "\<exists>vs. geometry_vertices quad_scene = Inr vs"
proof -
  have "\<not> isl (geometry_vertices quad_scene)"
    by code_simp
  then show ?thesis
    by (rule not_isl_Inr)
qed

text \<open>
  The last loop of \<^verbatim>\<open>writeGeometry\<close> writes the four weights and the four bone
  indices of every vertex in both layouts: a written vertex takes 56 bytes, also in
  a scene whose vertex size is 24. On the quad the size written before the vertices
  is 96 and the vertices take 224 bytes.
\<close>

lemma geometry_payload_bytes:
  assumes "geometry_vertices scene = Inr vs"
  shows "sum_list (map item_size (concat (map write_vertex vs)))
         = 56 * sum_list (map (\<lambda>mesh. length (mVertices mesh)) (mMeshes scene))"
proof -
  from geometry_vertices_written [OF assms]
    sum_list_concat_const [of vs item_size write_vertex 56]
  show ?thesis by (simp add: scene_vertex_count_def)
qed

lemma quad_payload_disagrees:
  "getVertexSize quad_scene = 24
   \<and> snd (geometry_totals (getVertexSize quad_scene) (mMeshes quad_scene)) = 96
   \<and> sum_list (map item_size (concat (map write_vertex (projr (geometry_vertices quad_scene)))))
       = 224"
proof -
  have h: "geometry_vertices quad_scene = Inr (projr (geometry_vertices quad_scene))"
    by (rule Inr_projr [OF quad_vertices])
  from geometry_payload_bytes [OF h] show ?thesis
    by (simp add: getVertexSize_def quad_scene_def quad_mesh_def RIGID_VERTEX_SIZE_def
        geometry_totals_def mNumVertices_def mNumFaces_def)
qed

subsection \<open>The skeleton block\<close>

lemma paths_nonempty: "p \<in> set (paths node) \<Longrightarrow> p \<noteq> []"
  by (cases node) auto

lemma concat_paths_nonempty: "p \<in> set (concat (map paths cs)) \<Longrightarrow> p \<noteq> []"
  by (auto dest: paths_nonempty)

lemma foldl_count: "foldl (\<lambda>count child. count + f child) (a::int) cs = a + sum_list (map f cs)"
  by (induction cs arbitrary: a) simp_all

lemma countNodes_paths: "countNodes node = int (length (paths node))"
proof (induction node)
  case (Node nm tr children)
  have "sum_list (map countNodes children) = int (length (concat (map paths children)))"
    using Node.IH by (induction children) (simp_all)
  then show ?case by (simp add: foldl_count)
qed

lemma last_paths: "map last (paths node) = preorder node"
proof (induction node)
  case (Node nm tr children)
  have "map last (map ((#) (Node nm tr children)) (concat (map paths children)))
        = map last (concat (map paths children))"
    by (simp add: concat_paths_nonempty)
  also have "\<dots> = concat (map preorder children)"
    using Node.IH by (induction children) simp_all
  finally show ?case by simp
qed

lemma writeNode_paths:
  "writeNode ops node (parent_of pre)
     (foldl (mat_mult ops) (mat_identity ops) (map mTransformation pre))
   = concat (map (\<lambda>p. skeleton_entry ops (pre @ p)) (paths node))"
proof (induction node arbitrary: pre)
  case (Node nm tr children)
  let ?n = "Node nm tr children"
  let ?acc = "foldl (mat_mult ops) (mat_identity ops) (map mTransformation pre)"
  have kids: "concat (map (\<lambda>child. writeNode ops child (Some ?n) (mat_mult ops ?acc tr)) cs)
        = concat (map (\<lambda>p. skeleton_entry ops (pre @ ?n # p)) (concat (map paths cs)))"
    if "set cs \<subseteq> set children" for cs
    using that
  proof (induction cs)
    case Nil
    then show ?case by simp
  next
    case (Cons c cs)
    then have c: "c \<in> set children" by simp
    have "writeNode ops c (Some ?n) (mat_mult ops ?acc tr)
          = concat (map (\<lambda>p. skeleton_entry ops (pre @ ?n # p)) (paths c))"
      using Node.IH [OF c, of "pre @ [?n]"] by (simp add: parent_of_def)
    with Cons show ?case by simp
  qed
  have entry: "skeleton_entry ops (pre @ [?n])
      = [I32 (of_nat (length nm)), Bytes nm]
        @ (case parent_of pre of
             Some p \<Rightarrow> [I32 (of_nat (length (mName p))), Bytes (mName p)]
           | None \<Rightarrow> [I32 0])
        @ (case DecomposeNoScaling ops (mat_mult ops ?acc tr) of
             (rot, pos) \<Rightarrow>
               [F32 (Finite (vx pos)), F32 (Finite (vy pos)), F32 (Finite (vz pos)),
                F32 (Finite (qx rot)), F32 (Finite (qy rot)), F32 (Finite (qz rot)),
                F32 (Finite (qw rot))])"
    by (simp add: skeleton_entry_def parent_of_def)
  show ?case
    using kids [of children] entry by (simp add: o_def)
qed

lemma writeSkeleton_paths:
  "writeSkeleton ops scene
   = I32 (of_nat (length (paths (mRootNode scene))))
     # concat (map (skeleton_entry ops) (paths (mRootNode scene)))"
  using writeNode_paths [of ops "mRootNode scene" "[]"]
  by (simp add: writeSkeleton_def countNodes_paths parent_of_def)

lemma paths_parent_before:
  "k < length (paths node) \<Longrightarrow> 0 < k \<Longrightarrow>
     \<exists>j<k. paths node ! j = butlast (paths node ! k)"
proof (induction node arbitrary: k)
  case (Node nm tr children)
  let ?n = "Node nm tr children"
  have sub: "i < length (concat (map paths cs)) \<Longrightarrow> set cs \<subseteq> set children \<Longrightarrow>
      length (concat (map paths cs) ! i) = 1
      \<or> (\<exists>j<i. concat (map paths cs) ! j = butlast (concat (map paths cs) ! i))" for cs i
  proof (induction cs arbitrary: i)
    case Nil
    then show ?case by simp
  next
    case (Cons c cs)
    then have c: "c \<in> set children" and cs: "set cs \<subseteq> set children" by simp_all
    show ?case
    proof (cases "i < length (paths c)")
      case True
      show ?thesis
      proof (cases "i = 0")
        case True
        then show ?thesis by (cases c) simp
      next
        case False
        with Node.IH [OF c, of i] True obtain j where "j < i" "paths c ! j = butlast (paths c ! i)"
          by auto
        with True show ?thesis by (auto simp: nth_append intro!: exI [of _ j])
      qed
    next
      case False
      let ?i = "i - length (paths c)"
      from False Cons.prems(1) have i': "?i < length (concat (map paths cs))" by simp
      from Cons.IH [OF i' cs] show ?thesis
      proof
        assume "length (concat (map paths cs) ! ?i) = 1"
        with False show ?thesis by (simp add: nth_append)
      next
        assume "\<exists>j<?i. concat (map paths cs) ! j = butlast (concat (map paths cs) ! ?i)"
        then obtain j where "j < ?i" "concat (map paths cs) ! j = butlast (concat (map paths cs) ! ?i)"
          by auto
        with False show ?thesis
          by (auto simp: nth_append intro!: exI [of _ "j + length (paths c)"])
      qed
    qed
  qed
  from Node.prems obtain i where k: "k = Suc i" by (cases k) auto
  with Node.prems have i: "i < length (concat (map paths children))" by simp
  have ne: "concat (map paths children) ! i \<noteq> []"
    using i by (intro concat_paths_nonempty [of _ children] nth_mem)
  from sub [OF i subset_refl] show ?case
  proof
    assume "length (concat (map paths children) ! i) = 1"
    then show ?thesis by (auto simp: k i length_Suc_conv intro!: exI [of _ 0])
  next
    assume "\<exists>j<i. concat (map paths children) ! j = butlast (concat (map paths children) ! i)"
    then obtain j where j: "j < i"
      "concat (map paths children) ! j = butlast (concat (map paths children) ! i)" by auto
    with i ne show ?thesis
      by (auto simp: k intro!: exI [of _ "Suc j"])
  qed
qed

text \<open>
  C8. The skeleton block begins with the node count, which is the number of nodes of
  the tree; the entries of the nodes follow in depth-first pre-order. The entry of a
  node holds its name, the name of its parent (length 0 for the root, which comes
  first), then translation and rotation of the product of the transformations from
  the root down to the node. Every node but the root comes after its parent: the
  path of the parent stands at an earlier position.
\<close>

theorem skeleton_block_preorder:
  "writeSkeleton ops scene
     = I32 (of_nat (length (preorder (mRootNode scene))))
       # concat (map (skeleton_entry ops) (paths (mRootNode scene)))
   \<and> countNodes (mRootNode scene) = int (length (preorder (mRootNode scene)))
   \<and> map last (paths (mRootNode scene)) = preorder (mRootNode scene)
   \<and> hd (paths (mRootNode scene)) = [mRootNode scene]
   \<and> (\<forall>k<length (paths (mRootNode scene)). 0 < k \<longrightarrow>
        (\<exists>j<k. paths (mRootNode scene) ! j = butlast (paths (mRootNode scene) ! k)))"
proof -
  have len: "length (paths (mRootNode scene)) = length (preorder (mRootNode scene))"
    using last_paths [of "mRootNode scene"] by (metis length_map)
  have hd: "hd (paths (mRootNode scene)) = [mRootNode scene]"
    by (cases "mRootNode scene") simp
  show ?thesis
    using writeSkeleton_paths [of ops scene] countNodes_paths [of "mRootNode scene"]
      last_paths [of "mRootNode scene"] paths_parent_before [of _ "mRootNode scene"]
    by (simp add: len hd)
qed

theorem skeleton_block_preorder_witness:
  "writeSkeleton line_ops arm_scene
     = [I32 4,
        I32 4, Bytes ''root'', I32 0,
        F32 (Finite 2), F32 (Finite 0), F32 (Finite 0),
        F32 (Finite 0), F32 (Finite 0), F32 (Finite 0), F32 (Finite 1),
        I32 3, Bytes ''arm'', I32 4, Bytes ''root'',
        F32 (Finite 5), F32 (Finite 0), F32 (Finite 0),
        F32 (Finite 0), F32 (Finite 0), F32 (Finite 0), F32 (Finite 1),
        I32 4, Bytes ''hand'', I32 3, Bytes ''arm'',
        F32 (Finite 9), F32 (Finite 0), F32 (Finite 0),
        F32 (Finite 0), F32 (Finite 0), F32 (Finite 0), F32 (Finite 1),
        I32 3, Bytes ''leg'', I32 4, Bytes ''root'',
        F32 (Finite 7), F32 (Finite 0), F32 (Finite 0),
        F32 (Finite 0), F32 (Finite 0), F32 (Finite 0), F32 (Finite 1)]
   \<and> (3::nat) < length (paths (mRootNode arm_scene))
   \<and> (\<exists>j<3. paths (mRootNode arm_scene) ! j = butlast (paths (mRootNode arm_scene) ! 3))"
proof -
  have root: "mRootNode arm_scene
      = Node ''root'' 2 [Node ''arm'' 3 [Node ''hand'' 4 []], Node ''leg'' 5 []]"
    by (simp add: arm_scene_def)
  have k: "(3::nat) < length (paths (mRootNode arm_scene))"
    by (simp add: root)
  note t = skeleton_block_preorder [of line_ops arm_scene]
  have parent: "\<exists>j<3. paths (mRootNode arm_scene) ! j = butlast (paths (mRootNode arm_scene) ! 3)"
    using t [THEN conjunct2, THEN conjunct2, THEN conjunct2, THEN conjunct2, rule_format, OF k]
    by simp
  from t [THEN conjunct1] k parent show ?thesis
    by (simp add: root skeleton_entry_def line_ops_def)
qed


subsection \<open>The mesh file\<close>

lemma opened_paths_append: "opened_paths (xs @ ys) = opened_paths xs @ opened_paths ys"
  by (induction xs rule: opened_paths.induct) simp_all

lemma mesh_file_shape:
  assumes "mesh_file header ops scene = Inr file"
  shows "\<exists>table geometry.
           writeMeshes scene = Inr (I32 (of_nat (length (mMeshes scene))) # table)
         \<and> writeGeometry scene = Inr geometry
         \<and> file = [U32 (m_magic header), U32 (m_version header)]
                  @ I32 (of_nat (length (mMeshes scene))) # table
                  @ geometry
                  @ writeSkeleton ops scene
                  @ [I32 1, I32 (of_nat (length (mMeshes scene)) - 1), F32 (Finite FLT_MAX)]"
  using assms
  by (auto simp: mesh_file_def ebind_Inr_iff writeMeshes_def)

text \<open>
  C5, as the code has it. Whenever \<^verbatim>\<open>saveLumixMesh\<close> returns \<open>True\<close>, the file it has
  written ends, after the skeleton block, with \<open>lod_count = 1\<close>,
  \<open>to_submesh_index = submesh_count - 1\<close> and the distance \<^verbatim>\<open>FLT_MAX\<close>, the largest
  finite float; \<open>submesh_count\<close> is the count at the head of the submesh table.
\<close>

theorem mesh_file_trailer:
  assumes "saveLumixMesh env header ops thread scene st = Inr (True, st')"
  shows "\<exists>table geometry.
           writeMeshes scene = Inr (I32 (of_nat (length (mMeshes scene))) # table)
         \<and> writeGeometry scene = Inr geometry
         \<and> trace st' = trace st @
             [Opened (mesh_path env thread) True,
              ItemsWritten (mesh_path env thread)
                ([U32 (m_magic header), U32 (m_version header)]
                 @ I32 (of_nat (length (mMeshes scene))) # table
                 @ geometry
                 @ writeSkeleton ops scene
                 @ [I32 1, I32 (of_nat (length (mMeshes scene)) - 1), F32 (Finite FLT_MAX)])]"
proof -
  from assms obtain written where f: "mesh_file header ops scene = Inr written"
    and tr: "trace st' = trace st @ [Opened (mesh_path env thread) True,
                                      ItemsWritten (mesh_path env thread) written]"
    by (auto simp: saveLumixMesh_def do_open_def do_write_items_def ebind_Inr_iff
        split: prod.splits if_splits)
  from mesh_file_shape [OF f] tr show ?thesis by auto
qed

lemma mesh_path_example: "mesh_path example_env example_thread = ''out/quad.msh''"
  by (simp add: mesh_path_def example_env_def example_thread_def base_name_def file_name_def)

lemma quad_mesh_file: "\<exists>written. mesh_file example_header line_ops quad_scene = Inr written"
proof -
  from quad_geometry obtain g where g: "writeGeometry quad_scene = Inr g" by blast
  have "\<exists>t. writeMeshes quad_scene = Inr t"
    by (simp add: writeMeshes_def quad_submeshes ebind_def)
  then obtain t where t: "writeMeshes quad_scene = Inr t" by blast
  show ?thesis by (simp add: mesh_file_def g t ebind_def)
qed

lemma quad_saved:
  "\<exists>st'. saveLumixMesh example_env example_header line_ops example_thread quad_scene start
          = Inr (True, st')"
proof -
  from quad_mesh_file obtain written where
    w: "mesh_file example_header line_ops quad_scene = Inr written" by blast
  have "do_open example_env ''out/quad.msh'' start
        = (True, \<lparr>world = [], trace = [Opened ''out/quad.msh'' True]\<rparr>)"
    by (simp add: do_open_def example_env_def start_def)
  then show ?thesis
    by (simp add: saveLumixMesh_def mesh_path_example w ebind_def)
qed

theorem mesh_file_trailer_witness:
  "saveLumixMesh example_env example_header line_ops example_thread quad_scene start
     = Inr (True, snd (projr (saveLumixMesh example_env example_header line_ops example_thread
                                 quad_scene start)))
   \<and> (\<exists>table geometry.
         trace (snd (projr (saveLumixMesh example_env example_header line_ops example_thread
                              quad_scene start)))
         = [Opened ''out/quad.msh'' True,
            ItemsWritten ''out/quad.msh''
              ([U32 0x5F4C4D4F, U32 1] @ I32 1 # table @ geometry
               @ writeSkeleton line_ops quad_scene
               @ [I32 1, I32 0, F32 (Finite FLT_MAX)])])"
proof -
  from quad_saved have h:
    "saveLumixMesh example_env example_header line_ops example_thread quad_scene start
     = Inr (True, snd (projr (saveLumixMesh example_env example_header line_ops example_thread
                                 quad_scene start)))"
    by auto
  have n: "length (mMeshes quad_scene) = 1" by (simp add: quad_scene_def)
  from mesh_file_trailer [OF h] h show ?thesis
    by (simp add: n mesh_path_example example_header_def start_def) blast
qed



text \<open>
  C5, as the specification states it, fails on the quad: the last value of the mesh file is
  \<^verbatim>\<open>FLT_MAX\<close>, a finite float, not the infinity of the format.
\<close>

theorem mesh_file_distance_not_infinity:
  "map_sum id last (mesh_file example_header line_ops quad_scene) = Inr (F32 (Finite FLT_MAX))
   \<and> F32 (Finite FLT_MAX) \<noteq> F32 PlusInfinity
   \<and> FLT_MAX = 340282346638528859811704183484516925440"
proof -
  from quad_mesh_file obtain written where
    w: "mesh_file example_header line_ops quad_scene = Inr written" by blast
  from mesh_file_shape [OF w] have "last written = F32 (Finite FLT_MAX)" by auto
  with w show ?thesis by (simp add: FLT_MAX_def)
qed


subsection \<open>The run and the material pass\<close>

lemma do_open_trace:
  "do_open env path st = (ok, st1) \<Longrightarrow> trace st1 = trace st @ [Opened path ok]"
  by (auto simp: do_open_def split: prod.splits)

lemma do_image_write_trace:
  "do_image_write env source dest st = (ok, st1) \<Longrightarrow>
     trace st1 = trace st @ [ImageWritten source dest ok]"
  by (auto simp: do_image_write_def split: prod.splits)

lemma do_copy_trace:
  "do_copy env source dest st = (ok, st1) \<Longrightarrow> trace st1 = trace st @ [Copied source dest ok]"
  by (auto simp: do_copy_def split: prod.splits)

lemma do_mkpath_trace: "trace (do_mkpath env path st) = trace st @ [PathMade path]"
  by (simp add: do_mkpath_def)

lemma do_write_text_trace:
  "trace (do_write_text env path text st) = trace st @ [TextWritten path text]"
  by (simp add: do_write_text_def)

lemma texture_pass_trace:
  assumes "texture_pass env thread f texture_path st = (ok, st1)"
  shows "\<exists>new. trace st1 = trace st @ new \<and> opened_paths new = []
              \<and> list_ex failed new = (\<not> ok)"
proof -
  have "\<exists>a b e. trace st1 = trace st @ [PathMade a, TextWritten f b, e]
           \<and> (\<exists>source dest. e = ImageWritten source dest ok \<or> e = Copied source dest ok)"
    using assms
    by (auto simp: texture_pass_def Let_def do_image_write_def do_copy_def do_write_text_def
        do_mkpath_def split: if_splits prod.splits)
  then obtain a b e where "trace st1 = trace st @ [PathMade a, TextWritten f b, e]"
    and "\<exists>source dest. e = ImageWritten source dest ok \<or> e = Copied source dest ok"
    by blast
  then show ?thesis
    by (intro exI [of _ "[PathMade a, TextWritten f b, e]"]) auto
qed

lemma textures_loop_trace:
  "\<exists>new. trace (snd (textures_loop env thread f texture_path n (success, st))) = trace st @ new
        \<and> opened_paths new = []
        \<and> fst (textures_loop env thread f texture_path n (success, st))
            = (success \<and> \<not> list_ex failed new)"
proof (induction n arbitrary: success st)
  case 0
  show ?case by simp
next
  case (Suc n)
  obtain ok st1 where pass: "texture_pass env thread f texture_path st = (ok, st1)"
    by (cases "texture_pass env thread f texture_path st") auto
  from texture_pass_trace [OF pass] obtain new1 where
    new1: "trace st1 = trace st @ new1" "opened_paths new1 = []" "list_ex failed new1 = (\<not> ok)"
    by blast
  from Suc.IH [of "if \<not> ok then False else success" st1] obtain new2 where
    new2: "trace (snd (textures_loop env thread f texture_path n (if \<not> ok then False else success, st1)))
              = trace st1 @ new2"
        "opened_paths new2 = []"
        "fst (textures_loop env thread f texture_path n (if \<not> ok then False else success, st1))
            = ((if \<not> ok then False else success) \<and> \<not> list_ex failed new2)"
    by blast
  show ?case
    using pass new1 new2
    by (intro exI [of _ "new1 @ new2"]) (auto simp: opened_paths_append)
qed

lemma write_material_trace:
  "\<exists>new. trace (snd (write_material env thread vertex_size material success st)) = trace st @ new
        \<and> opened_paths new = []
        \<and> fst (write_material env thread vertex_size material success st)
            = (success \<and> \<not> list_ex failed new)"
proof -
  let ?path = "material_path thread material"
  define st1 where "st1 = do_write_text env ?path (shader_text vertex_size) st"
  have tr1: "trace st1 = trace st @ [TextWritten ?path (shader_text vertex_size)]"
    by (simp add: st1_def do_write_text_trace)
  define r where "r = (case aiTextureType_DIFFUSE material of
                        [] \<Rightarrow> (success, st1)
                      | texture_path # others \<Rightarrow>
                          textures_loop env thread ?path texture_path
                            (length (aiTextureType_DIFFUSE material)) (success, st1))"
  have "\<exists>new. trace (snd r) = trace st1 @ new \<and> opened_paths new = []
            \<and> fst r = (success \<and> \<not> list_ex failed new)"
  proof (cases "aiTextureType_DIFFUSE material")
    case Nil
    then show ?thesis by (simp add: r_def)
  next
    case (Cons texture_path others)
    with textures_loop_trace [of env thread ?path texture_path
        "length (aiTextureType_DIFFUSE material)" success st1]
    show ?thesis by (simp add: r_def)
  qed
  then obtain new where new: "trace (snd r) = trace st1 @ new" "opened_paths new = []"
    "fst r = (success \<and> \<not> list_ex failed new)" by blast
  have w: "write_material env thread vertex_size material success st
         = (fst r, do_write_text env ?path ''}'' (snd r))"
    unfolding write_material_def Let_def r_def st1_def by (simp split: prod.splits)
  show ?thesis
    unfolding w using new tr1
    by (intro exI [of _ "TextWritten ?path (shader_text vertex_size) # new
                          @ [TextWritten ?path ''}'']"])
      (simp add: do_write_text_trace opened_paths_append)
qed

lemma materials_loop_trace:
  "\<exists>new. trace (snd (materials_loop env thread vertex_size materials (success, st))) = trace st @ new
        \<and> opened_paths new = map (material_path thread) materials
        \<and> fst (materials_loop env thread vertex_size materials (success, st))
            = (success \<and> \<not> list_ex failed new)"
proof (induction materials arbitrary: success st)
  case Nil
  show ?case by simp
next
  case (Cons material rest)
  let ?path = "material_path thread material"
  obtain ok st1 where op: "do_open env ?path st = (ok, st1)"
    by (cases "do_open env ?path st") auto
  note tr1 = do_open_trace [OF op]
  show ?case
  proof (cases ok)
    case False
    from Cons.IH [of False st1] obtain new where
      new: "trace (snd (materials_loop env thread vertex_size rest (False, st1))) = trace st1 @ new"
        "opened_paths new = map (material_path thread) rest"
        "fst (materials_loop env thread vertex_size rest (False, st1))
           = (False \<and> \<not> list_ex failed new)"
      by blast
    show ?thesis
      using op False new tr1
      by (intro exI [of _ "Opened ?path False # new"]) simp
  next
    case True
    obtain s2 st2 where wm: "write_material env thread vertex_size material success st1 = (s2, st2)"
      by (cases "write_material env thread vertex_size material success st1") auto
    from write_material_trace [of env thread vertex_size material success st1] wm
    obtain new1 where new1: "trace st2 = trace st1 @ new1" "opened_paths new1 = []"
      "s2 = (success \<and> \<not> list_ex failed new1)" by auto
    from Cons.IH [of s2 st2] obtain new where
      new: "trace (snd (materials_loop env thread vertex_size rest (s2, st2))) = trace st2 @ new"
        "opened_paths new = map (material_path thread) rest"
        "fst (materials_loop env thread vertex_size rest (s2, st2))
           = (s2 \<and> \<not> list_ex failed new)"
      by blast
    show ?thesis
      using op True wm new new1 tr1
      by (intro exI [of _ "Opened ?path True # new1 @ new"])
        (auto simp: opened_paths_append)
  qed
qed

text \<open>
  C9, as the code has it. A run with a scene enters the material pass exactly when
  the mesh file has opened. When the mesh file does not open, \<^verbatim>\<open>saveLumixMesh\<close>
  returns \<open>False\<close> and the run ends with that one failed attempt. When it opens,
  \<^verbatim>\<open>saveLumixMesh\<close> gives the values of the mesh file to the writes and returns
  \<open>True\<close> whatever the writes return, and the run goes on with the material pass: a
  write to the mesh file that fails is not noticed. When the import of materials is
  switched on, the pass tries to open the file of every material, in order,
  whatever failed before, and returns \<open>False\<close> if and only if one of its attempts
  failed: a material file that did not open, a texture that was not converted or a
  texture that was not copied. When the import of materials is switched off, the
  pass returns \<open>True\<close> and attempts nothing.
\<close>

theorem material_pass_best_effort:
  "(\<not> fst (QFile_open env (mesh_path env thread) (world st)) \<longrightarrow>
      saveLumixMesh env header ops thread scene st
        = Inr (False, snd (do_open env (mesh_path env thread) st))
    \<and> run env header ops thread (Some scene) st
        = Inr (Some scene, snd (do_open env (mesh_path env thread) st))
    \<and> trace (snd (do_open env (mesh_path env thread) st))
        = trace st @ [Opened (mesh_path env thread) False])
 \<and> (fst (QFile_open env (mesh_path env thread) (world st)) \<longrightarrow>
    mesh_file header ops scene = Inr items \<longrightarrow>
      saveLumixMesh env header ops thread scene st
        = Inr (True, do_write_items env (mesh_path env thread) items
                       (snd (do_open env (mesh_path env thread) st)))
    \<and> trace (do_write_items env (mesh_path env thread) items
                (snd (do_open env (mesh_path env thread) st)))
        = trace st @ [Opened (mesh_path env thread) True,
                      ItemsWritten (mesh_path env thread) items]
    \<and> run env header ops thread (Some scene) st
        = Inr (Some scene,
               snd (saveLumixMaterials env thread scene
                      (do_write_items env (mesh_path env thread) items
                         (snd (do_open env (mesh_path env thread) st))))))
 \<and> (fst (QFile_open env (mesh_path env thread) (world st)) \<longrightarrow>
    mesh_file header ops scene = Inl e \<longrightarrow>
      run env header ops thread (Some scene) st = Inl e)
 \<and> (m_import_materials thread \<longrightarrow>
      (\<exists>new. trace (snd (saveLumixMaterials env thread scene st)) = trace st @ new
            \<and> opened_paths new = map (material_path thread) (mMaterials scene)
            \<and> fst (saveLumixMaterials env thread scene st) = (\<not> list_ex failed new)))
 \<and> (\<not> m_import_materials thread \<longrightarrow> saveLumixMaterials env thread scene st = (True, st))"
proof -
  have d: "\<exists>new. trace (snd (saveLumixMaterials env thread scene st)) = trace st @ new
            \<and> opened_paths new = map (material_path thread) (mMaterials scene)
            \<and> fst (saveLumixMaterials env thread scene st) = (\<not> list_ex failed new)"
    if "m_import_materials thread"
    using that materials_loop_trace [of env thread "getVertexSize scene" "mMaterials scene" True st]
    by (simp add: saveLumixMaterials_def)
  have a: "saveLumixMesh env header ops thread scene st
             = Inr (False, snd (do_open env (mesh_path env thread) st))
         \<and> run env header ops thread (Some scene) st
             = Inr (Some scene, snd (do_open env (mesh_path env thread) st))
         \<and> trace (snd (do_open env (mesh_path env thread) st))
             = trace st @ [Opened (mesh_path env thread) False]"
    if "\<not> fst (QFile_open env (mesh_path env thread) (world st))"
    using that
    by (auto simp: run_def saveLumixMesh_def do_open_def ebind_def split: prod.splits)
  have b: "saveLumixMesh env header ops thread scene st
             = Inr (True, do_write_items env (mesh_path env thread) items
                            (snd (do_open env (mesh_path env thread) st)))
         \<and> trace (do_write_items env (mesh_path env thread) items
                     (snd (do_open env (mesh_path env thread) st)))
             = trace st @ [Opened (mesh_path env thread) True,
                           ItemsWritten (mesh_path env thread) items]
         \<and> run env header ops thread (Some scene) st
             = Inr (Some scene,
                    snd (saveLumixMaterials env thread scene
                           (do_write_items env (mesh_path env thread) items
                              (snd (do_open env (mesh_path env thread) st)))))"
    if "fst (QFile_open env (mesh_path env thread) (world st))"
      and "mesh_file header ops scene = Inr items"
    using that
    by (auto simp: run_def saveLumixMesh_def do_open_def do_write_items_def ebind_def
        split: prod.splits)
  have c: "run env header ops thread (Some scene) st = Inl e"
    if "fst (QFile_open env (mesh_path env thread) (world st))"
      and "mesh_file header ops scene = Inl e"
    using that
    by (auto simp: run_def saveLumixMesh_def do_open_def ebind_def split: prod.splits)
  show ?thesis
    using a b c d by (simp add: saveLumixMaterials_def)
qed

lemma material_paths_example:
  "map (material_path example_thread) (mMaterials materials_scene)
   = [''out/Mat.mat'', ''out/Bad.mat'', ''out/Wood.mat'']"
  by (simp add: material_path_def example_thread_def materials_scene_def)

lemma materials_example_fails:
  "fst (saveLumixMaterials example_env example_thread materials_scene start) = False"
  by code_simp

lemma locked_path: "mesh_path example_env locked_thread = ''locked/quad.msh''"
  by (simp add: mesh_path_def example_env_def locked_thread_def example_thread_def
      base_name_def file_name_def)

lemma full_disk_path: "mesh_path full_disk_env example_thread = ''out/quad.msh''"
  by (simp add: mesh_path_def full_disk_env_def example_env_def example_thread_def
      base_name_def file_name_def)

lemma materials_scene_mesh_file:
  "\<exists>written. mesh_file example_header line_ops materials_scene = Inr written"
proof -
  have "\<not> isl (mesh_file example_header line_ops materials_scene)"
    by code_simp
  then show ?thesis
    by (rule not_isl_Inr)
qed

lemma five_bone_mesh_file:
  "mesh_file example_header line_ops five_bone_scene = Inl ArrayOutOfBounds"
proof -
  have "\<exists>t. writeMeshes five_bone_scene = Inr t"
    by (simp add: writeMeshes_def submeshes_def five_bone_scene_def getVertexSize_def
        array_at_def ebind_def)
  then obtain t where t: "writeMeshes five_bone_scene = Inr t" by blast
  show ?thesis
    by (simp add: mesh_file_def t five_bone_geometry ebind_def)
qed

theorem material_pass_best_effort_witness:
  "\<not> fst (QFile_open example_env ''locked/quad.msh'' (world start))
   \<and> saveLumixMesh example_env example_header line_ops locked_thread materials_scene start
     = Inr (False, \<lparr>world = [], trace = [Opened ''locked/quad.msh'' False]\<rparr>)
   \<and> run example_env example_header line_ops locked_thread (Some materials_scene) start
     = Inr (Some materials_scene, \<lparr>world = [], trace = [Opened ''locked/quad.msh'' False]\<rparr>)
   \<and> fst (QFile_open full_disk_env ''out/quad.msh'' (world start))
   \<and> mesh_file example_header line_ops materials_scene
     = Inr (projr (mesh_file example_header line_ops materials_scene))
   \<and> \<not> fst (QFile_write full_disk_env ''out/quad.msh''
               (projr (mesh_file example_header line_ops materials_scene)) (world start))
   \<and> saveLumixMesh full_disk_env example_header line_ops example_thread materials_scene start
     = Inr (True,
            \<lparr>world = [],
             trace = [Opened ''out/quad.msh'' True,
                      ItemsWritten ''out/quad.msh''
                        (projr (mesh_file example_header line_ops materials_scene))]\<rparr>)
   \<and> run full_disk_env example_header line_ops example_thread (Some materials_scene) start
     = Inr (Some materials_scene,
            snd (saveLumixMaterials full_disk_env example_thread materials_scene
                   \<lparr>world = [],
                    trace = [Opened ''out/quad.msh'' True,
                             ItemsWritten ''out/quad.msh''
                               (projr (mesh_file example_header line_ops materials_scene))]\<rparr>))
   \<and> fst (QFile_open example_env ''out/quad.msh'' (world start))
   \<and> mesh_file example_header line_ops five_bone_scene = Inl ArrayOutOfBounds
   \<and> run example_env example_header line_ops example_thread (Some five_bone_scene) start
     = Inl ArrayOutOfBounds
   \<and> m_import_materials example_thread
   \<and> fst (saveLumixMaterials example_env example_thread materials_scene start) = False
   \<and> (\<exists>new. trace (snd (saveLumixMaterials example_env example_thread materials_scene start)) = new
          \<and> opened_paths new = [''out/Mat.mat'', ''out/Bad.mat'', ''out/Wood.mat'']
          \<and> list_ex failed new)
   \<and> \<not> m_import_materials (example_thread\<lparr>m_import_materials := False\<rparr>)
   \<and> saveLumixMaterials example_env (example_thread\<lparr>m_import_materials := False\<rparr>)
        quad_scene start = (True, start)"
proof -
  note t1 = material_pass_best_effort [where env = example_env and header = example_header
      and ops = line_ops and thread = locked_thread and scene = materials_scene and st = start]
  note t2 = material_pass_best_effort [where env = full_disk_env and header = example_header
      and ops = line_ops and thread = example_thread and scene = materials_scene and st = start
      and items = "projr (mesh_file example_header line_ops materials_scene)"]
  note t3 = material_pass_best_effort [where env = example_env and header = example_header
      and ops = line_ops and thread = example_thread and scene = five_bone_scene and st = start
      and e = ArrayOutOfBounds]
  note t4 = material_pass_best_effort [where env = example_env and header = example_header
      and ops = line_ops and thread = example_thread and scene = materials_scene and st = start]
  note t5 = material_pass_best_effort [where env = example_env and header = example_header
      and ops = line_ops and thread = "example_thread\<lparr>m_import_materials := False\<rparr>"
      and scene = quad_scene and st = start]
  have locked: "\<not> fst (QFile_open example_env (mesh_path example_env locked_thread) (world start))"
    unfolding locked_path by (simp add: example_env_def)
  have opens: "fst (QFile_open full_disk_env (mesh_path full_disk_env example_thread) (world start))"
    unfolding full_disk_path by (simp add: full_disk_env_def example_env_def)
  have opens': "fst (QFile_open example_env (mesh_path example_env example_thread) (world start))"
    unfolding mesh_path_example by (simp add: example_env_def)
  have written: "mesh_file example_header line_ops materials_scene
                 = Inr (projr (mesh_file example_header line_ops materials_scene))"
    by (rule Inr_projr [OF materials_scene_mesh_file])
  have fails: "\<not> fst (QFile_write full_disk_env ''out/quad.msh''
                        (projr (mesh_file example_header line_ops materials_scene)) (world start))"
    by (simp add: full_disk_env_def)
  have flag: "m_import_materials example_thread"
    by (simp add: example_thread_def)
  have off: "\<not> m_import_materials (example_thread\<lparr>m_import_materials := False\<rparr>)"
    by simp
  have o1: "do_open example_env ''locked/quad.msh'' start
            = (False, \<lparr>world = [], trace = [Opened ''locked/quad.msh'' False]\<rparr>)"
    by (simp add: do_open_def example_env_def start_def)
  have o2: "do_write_items full_disk_env ''out/quad.msh'' items
              (snd (do_open full_disk_env ''out/quad.msh'' start))
            = \<lparr>world = [], trace = [Opened ''out/quad.msh'' True,
                                      ItemsWritten ''out/quad.msh'' items]\<rparr>" for items
    by (simp add: do_open_def do_write_items_def full_disk_env_def example_env_def start_def)
  from t1 [THEN conjunct1, rule_format, OF locked]
    t2 [THEN conjunct2, THEN conjunct1, rule_format, OF opens written]
    t3 [THEN conjunct2, THEN conjunct2, THEN conjunct1, rule_format, OF opens' five_bone_mesh_file]
    t4 [THEN conjunct2, THEN conjunct2, THEN conjunct2, THEN conjunct1, rule_format, OF flag]
    t5 [THEN conjunct2, THEN conjunct2, THEN conjunct2, THEN conjunct2, rule_format, OF off]
    locked opens opens' written fails flag off materials_example_fails five_bone_mesh_file
  show ?thesis
    by (simp add: material_paths_example locked_path full_disk_path mesh_path_example o1 o2)
qed

text \<open>
  C9, as the specification states it, fails twice. On a full disk the mesh file
  opens and the write of its values fails; the run does not notice, and the
  material pass is entered: the files of the three materials are opened after the
  mesh file. And when the import of materials is switched off, the pass returns
  \<open>True\<close> and leaves the state as it was, without one attempt to open a material
  file.
\<close>

theorem material_pass_after_failed_write_and_import_off:
  "QFile_open full_disk_env ''out/quad.msh'' [] = (True, [])
   \<and> QFile_write full_disk_env ''out/quad.msh''
       (projr (mesh_file example_header line_ops materials_scene)) [] = (False, [])
   \<and> \<not> isl (run full_disk_env example_header line_ops example_thread (Some materials_scene) start)
   \<and> opened_paths (trace (snd (projr (run full_disk_env example_header line_ops example_thread
                                        (Some materials_scene) start))))
       = [''out/quad.msh'', ''out/Mat.mat'', ''out/Bad.mat'', ''out/Wood.mat'']
   \<and> saveLumixMaterials example_env (example_thread\<lparr>m_import_materials := False\<rparr>)
       materials_scene start = (True, start)
   \<and> map AI_MATKEY_NAME (mMaterials materials_scene) = [''Mat'', ''Bad'', ''Wood'']
   \<and> opened_paths (trace start) = []"
proof -
  have "QFile_open full_disk_env ''out/quad.msh'' [] = (True, [])"
    "QFile_write full_disk_env ''out/quad.msh''
       (projr (mesh_file example_header line_ops materials_scene)) [] = (False, [])"
    by (simp_all add: full_disk_env_def example_env_def)
  moreover have
    "\<not> isl (run full_disk_env example_header line_ops example_thread (Some materials_scene) start)"
    by code_simp
  moreover have
    "opened_paths (trace (snd (projr (run full_disk_env example_header line_ops example_thread
                                        (Some materials_scene) start))))
       = [''out/quad.msh'', ''out/Mat.mat'', ''out/Bad.mat'', ''out/Wood.mat'']"
    by code_simp
  moreover have
    "saveLumixMaterials example_env (example_thread\<lparr>m_import_materials := False\<rparr>)
       materials_scene start = (True, start)
     \<and> map AI_MATKEY_NAME (mMaterials materials_scene) = [''Mat'', ''Bad'', ''Wood'']
     \<and> opened_paths (trace start) = []"
    by (simp add: saveLumixMaterials_def materials_scene_def start_def)
  ultimately show ?thesis
    by simp
qed


subsection \<open>The animation file\<close>

lemma getBoneNames_x_preorder:
  "getBoneNames_x node names = names @ map mName (preorder node)"
proof (induction node arbitrary: names)
  case (Node nm tr children)
  have "foldl (\<lambda>names child. getBoneNames_x child names) acc cs
        = acc @ map mName (concat (map preorder cs))"
    if "set cs \<subseteq> set children" for cs acc
    using that
  proof (induction cs arbitrary: acc)
    case Nil
    show ?case by simp
  next
    case (Cons c cs)
    then have "c \<in> set children" "set cs \<subseteq> set children" by simp_all
    with Cons.IH Node.IH show ?case by simp
  qed
  from this [of children] show ?case by simp
qed

lemma getBoneNames_preorder: "getBoneNames scene = map mName (preorder (mRootNode scene))"
  by (simp add: getBoneNames_def getBoneNames_x_preorder)

lemma qvector_set_length: "qvector_set xs i v = Inr ys \<Longrightarrow> length ys = length xs"
  by (auto simp: qvector_set_def split: if_splits)

lemma fill_frames_length:
  "fill_frames I channel bone_count bone_index frames (ps, rs) = Inr (ps', rs') \<Longrightarrow>
     length ps' = length ps \<and> length rs' = length rs"
proof (induction frames arbitrary: ps rs)
  case Nil
  then show ?case by simp
next
  case (Cons frame frames)
  from Cons.prems obtain ps1 rs1 where
    "length ps1 = length ps" "length rs1 = length rs"
    "fill_frames I channel bone_count bone_index frames (ps1, rs1) = Inr (ps', rs')"
    by (auto simp: ebind_Inr_iff dest: qvector_set_length)
  with Cons.IH [of ps1 rs1] show ?case by simp
qed

lemma fill_channels_length:
  "fill_channels I bone_names bone_count frame_count channels (ps, rs) = Inr (ps', rs') \<Longrightarrow>
     length ps' = length ps \<and> length rs' = length rs"
proof (induction channels arbitrary: ps rs)
  case Nil
  then show ?case by simp
next
  case (Cons channel channels)
  from Cons.prems obtain ps1 rs1 where
    f: "fill_frames I channel bone_count (indexOf bone_names (mNodeName channel))
          (map int [0..<nat frame_count]) (ps, rs) = Inr (ps1, rs1)"
    and c: "fill_channels I bone_names bone_count frame_count channels (ps1, rs1) = Inr (ps', rs')"
    by (auto simp: ebind_Inr_iff)
  from fill_frames_length [OF f] Cons.IH [OF c] show ?case by simp
qed

text \<open>
  C4, as the code has it. In an animation file, the hashes follow the rotation
  array, one for every node of the scene tree in pre-order: their number is the
  number of nodes, whatever the number of channels, which is the \<open>bone_count\<close> of
  the header and the stride of the two arrays. Each hash is the string hash of the
  name of its node and of nothing else.
\<close>

theorem animation_file_hashes:
  assumes "animation_file aops (getBoneNames scene) animation = Inr written"
  shows "\<exists>frame_count positions rotations.
           to_int32 (mDuration animation) = Inr frame_count
         \<and> length positions = length (mChannels animation) * nat frame_count
         \<and> length rotations = length (mChannels animation) * nat frame_count
         \<and> written =
             [U32 (HEADER_MAGIC aops), U32 1,
              F32 (Finite (if mTicksPerSecond animation = 0 then 25 else mTicksPerSecond animation)),
              I32 (word_of_int frame_count), I32 (of_nat (length (mChannels animation)))]
             @ concat (map write_position positions)
             @ concat (map write_rotation rotations)
             @ map (\<lambda>node. U32 (crc32 aops (mName node))) (preorder (mRootNode scene))"
proof -
  let ?n = "int (length (mChannels animation))"
  from assms obtain frame_count positions rotations where
    fc: "to_int32 (mDuration animation) = Inr frame_count"
    and nonneg: "0 \<le> ?n * frame_count"
    and fill: "fill_channels (Interpolate aops) (getBoneNames scene) ?n frame_count
                 (mChannels animation)
                 (replicate (nat (?n * frame_count)) None, replicate (nat (?n * frame_count)) None)
               = Inr (positions, rotations)"
    and w: "written =
             [U32 (HEADER_MAGIC aops), U32 1,
              F32 (Finite (if mTicksPerSecond animation = 0 then 25 else mTicksPerSecond animation)),
              I32 (word_of_int frame_count), I32 (word_of_int ?n)]
             @ concat (map write_position positions)
             @ concat (map write_rotation rotations)
             @ map (\<lambda>bone_name. U32 (crc32 aops bone_name)) (getBoneNames scene)"
    by (auto simp: animation_file_def Let_def ebind_Inr_iff split: if_splits)
  have len: "nat (?n * frame_count) = length (mChannels animation) * nat frame_count"
    by (simp add: nat_mult_distrib)
  from fill_channels_length [OF fill] have
    "length positions = length (mChannels animation) * nat frame_count"
    "length rotations = length (mChannels animation) * nat frame_count"
    by (simp_all add: len)
  with fc w show ?thesis
    by (auto simp: getBoneNames_preorder o_def)
qed

lemma walk_file:
  "animation_file example_aops (getBoneNames walk_scene) walk
   = Inr [U32 0x5F4C4146, U32 1, F32 (Finite 25), I32 1, I32 1,
          F32 (Finite 1), F32 (Finite 2), F32 (Finite 3),
          F32 (Finite 0), F32 (Finite 0), F32 (Finite 0), F32 (Finite 1),
          U32 452, U32 516]"
  by (simp add: animation_file_def walk_def walk_scene_def getBoneNames_def
      example_aops_def to_int32_def float_trunc_def ebind_def indexOf_def
      getPosition_def getRotation_def getPosition_scan_step getRotation_scan.simps array_at_def
      qvector_set_def write_position_def write_rotation_def upt_rec)

theorem animation_file_hashes_witness:
  "animation_file example_aops (getBoneNames walk_scene) walk
     = Inr (projr (animation_file example_aops (getBoneNames walk_scene) walk))
   \<and> (\<exists>positions rotations.
         length positions = 1 \<and> length rotations = 1
       \<and> projr (animation_file example_aops (getBoneNames walk_scene) walk)
         = [U32 0x5F4C4146, U32 1, F32 (Finite 25), I32 1, I32 1]
           @ concat (map write_position positions)
           @ concat (map write_rotation rotations)
           @ [U32 (crc32 example_aops ''root''), U32 (crc32 example_aops ''child'')])"
proof -
  have h: "animation_file example_aops (getBoneNames walk_scene) walk
     = Inr (projr (animation_file example_aops (getBoneNames walk_scene) walk))"
    by (simp add: walk_file)
  have d: "to_int32 (mDuration walk) = Inr 1"
    by (simp add: walk_def to_int32_def float_trunc_def)
  have c: "length (mChannels walk) = 1" "mTicksPerSecond walk = 0"
    by (simp_all add: walk_def)
  have r: "preorder (mRootNode walk_scene) = [Node ''root'' 0 [Node ''child'' 1 []], Node ''child'' 1 []]"
    by (simp add: walk_scene_def)
  have m: "HEADER_MAGIC example_aops = 0x5F4C4146"
    by (simp add: example_aops_def)
  from animation_file_hashes [OF h] h show ?thesis
    by (simp add: d c r m)
qed

text \<open>
  C4, as the specification states it, fails on a clip with one channel in a tree of two
  nodes: the file ends with two hashes.
\<close>

theorem hash_count_is_node_count:
  "animation_file example_aops (getBoneNames walk_scene) walk
   = Inr [U32 0x5F4C4146, U32 1, F32 (Finite 25), I32 1, I32 1,
          F32 (Finite 1), F32 (Finite 2), F32 (Finite 3),
          F32 (Finite 0), F32 (Finite 0), F32 (Finite 0), F32 (Finite 1),
          U32 452, U32 516]
   \<and> length (mChannels walk) = 1
   \<and> length (preorder (mRootNode walk_scene)) = 2"
  by (simp add: walk_file) (simp add: walk_def walk_scene_def)

end
